theory Spec2Isabelle
  imports Main "HOL-Library.Word"
begin

unbundle bit_operations_syntax

section \<open>The union filesystem's layer engine (graph/drivers/unionfs/layer.c)\<close>

text \<open>
  A shallow embedding of \<^verbatim>\<open>layer.c\<close>: the layer registry \<^verbatim>\<open>layer_hash\<close>, the layers and
  inodes it points to, and the functions \<^verbatim>\<open>alloc_inode\<close>, \<^verbatim>\<open>get_layer\<close>, \<^verbatim>\<open>ref_inode\<close>,
  \<^verbatim>\<open>deref_inode\<close>, \<^verbatim>\<open>delete_inode\<close>, \<^verbatim>\<open>create_layer\<close>, \<^verbatim>\<open>remove_layer\<close>, \<^verbatim>\<open>set_upper\<close>,
  \<^verbatim>\<open>unset_upper\<close> and \<^verbatim>\<open>init_layers\<close>.

  Layers and inodes are C objects reached through pointers, and one layer is shared by
  all its descendants, so both live in a store: a map from addresses to records. A null
  pointer is \<open>None\<close>. The model follows one thread of control.
\<close>

subsection \<open>Constants of the system headers\<close>

type_synonym addr = nat
type_synonym mode_t = "32 word"

definition PATH_MAX :: nat where
  "PATH_MAX = 4096"

definition S_IFREG :: mode_t where
  "S_IFREG = 0x8000"

definition S_IFDIR :: mode_t where
  "S_IFDIR = 0x4000"

definition ENOENT :: int where
  "ENOENT = 2"

definition ENOMEM :: int where
  "ENOMEM = 12"

definition EEXIST :: int where
  "EEXIST = 17"

definition INT_MAX :: int where
  "INT_MAX = 2147483647"

definition INT_MIN :: int where
  "INT_MIN = - 2147483648"

subsection \<open>libc: \<^verbatim>\<open>dirname\<close> and \<^verbatim>\<open>basename\<close> of \<^verbatim>\<open>libgen.h\<close>\<close>

text \<open>
  \<^verbatim>\<open>layer.c\<close> includes \<^verbatim>\<open>libgen.h\<close>, so both functions are the POSIX ones, which work in
  the buffer they are given. \<open>dirname\<close> is called on a private copy (\<^verbatim>\<open>file\<close>), so only
  its result matters. \<open>basename\<close> is called by \<^verbatim>\<open>alloc_inode\<close> on \<^verbatim>\<open>name\<close> itself (the copy
  \<^verbatim>\<open>dupname\<close> made two lines earlier is never used), and \<^verbatim>\<open>name\<close> is used again afterwards
  as the key of \<^verbatim>\<open>ht_set\<close>. POSIX: "The basename() function may modify the string pointed
  to by path"; the C library of the platform this driver builds for (Linux, glibc's
  \<^verbatim>\<open>__xpg_basename\<close>) overwrites the first slash of a trailing run of slashes with the
  terminator when a component precedes it. \<open>basename\<close> therefore returns two strings: the
  component, and the buffer as the call leaves it.
\<close>

definition strip_slashes :: "string \<Rightarrow> string" where
  "strip_slashes p = rev (dropWhile (\<lambda>c. c = CHR ''/'') (rev p))"

definition dirname :: "string \<Rightarrow> string" where
  "dirname path =
     (let b = strip_slashes path in
      if b = [] then
        (if path = [] then ''.'' else if length path = 2 then ''//'' else ''/'')
      else
        (let pre = rev (dropWhile (\<lambda>c. c \<noteq> CHR ''/'') (rev b)) in
         if pre = [] then ''.''
         else if strip_slashes pre = [] then (if length pre = 2 then ''//'' else ''/'')
         else strip_slashes pre))"

definition basename :: "string \<Rightarrow> string \<times> string" where
  "basename filename =
     (if filename = [] then (''.'', filename)
      else if CHR ''/'' \<notin> set filename then (filename, filename)
      else if last filename \<noteq> CHR ''/'' then
        (rev (takeWhile (\<lambda>c. c \<noteq> CHR ''/'') (rev filename)), filename)
      else
        (let b = strip_slashes filename in
         if b = [] then (''/'', filename)
         else (rev (takeWhile (\<lambda>c. c \<noteq> CHR ''/'') (rev b)), b)))"

subsection \<open>Data model\<close>

text \<open>
  Modelled from the spec: \<^verbatim>\<open>layer.h\<close>, which declares \<^verbatim>\<open>struct inode\<close> and \<^verbatim>\<open>struct layer\<close>,
  is not under src/. The fields are those \<^verbatim>\<open>layer.c\<close> reads and writes. The reference
  count, the spec's integer, is taken to be a C \<^verbatim>\<open>int\<close>: a value from \<open>INT_MIN\<close> to \<open>INT_MAX\<close>,
  and \<^verbatim>\<open>ref++\<close> at \<open>INT_MAX\<close> or \<^verbatim>\<open>ref--\<close> at \<open>INT_MIN\<close> is undefined behaviour.
  \<^verbatim>\<open>alloc_inode\<close> obtains the inode from \<^verbatim>\<open>malloc\<close>, which does not initialise it: a field
  the function never assigns (\<^verbatim>\<open>f\<close> of an inode that is not a regular file, \<^verbatim>\<open>parent\<close> of a
  root) stays \<open>Garbage\<close>. The field \<^verbatim>\<open>f\<close> is \<open>fstream\<close>, the field \<^verbatim>\<open>next\<close> is \<open>next_sibling\<close>,
  and the \<^verbatim>\<open>parent\<close> of a layer is \<open>lparent\<close>. The field \<^verbatim>\<open>lock\<close> is the inode's mutex: \<open>True\<close>
  while it is locked.
\<close>

datatype 'a slot = Garbage | Holds 'a

record inode =
  ref :: int
  deleted :: bool
  name :: string
  atime :: int
  mtime :: int
  ctime :: int
  uid :: nat
  gid :: nat
  mode :: mode_t
  fstream :: "nat slot"
  lock :: bool
  layer :: addr
  parent :: "addr slot"
  child :: "addr option"
  next_sibling :: "addr option"

record layer =
  upper :: bool
  lparent :: "addr option"
  children :: "string \<rightharpoonup> addr"
  root :: "addr option"

text \<open>
  The state of the engine: the static \<^verbatim>\<open>layer_hash\<close>, the two stores, the number of read
  holds on \<^verbatim>\<open>inode_reaper_lock\<close>, and \<^verbatim>\<open>errno\<close>.
\<close>

record state =
  layer_hash :: "string \<rightharpoonup> addr"
  layers :: "addr \<rightharpoonup> layer"
  inodes :: "addr \<rightharpoonup> inode"
  reaper_readers :: nat
  errno :: int

text \<open>
  What the C library answers during one call of the engine. Each call site of
  \<^verbatim>\<open>malloc\<close>, \<^verbatim>\<open>calloc\<close>, \<^verbatim>\<open>strdup\<close> and \<^verbatim>\<open>tmpfile\<close> runs at most once per call of the
  engine, so one answer per site is enough: the address returned (\<open>None\<close> is a null
  result), or whether the copy was made.
\<close>

record env =
  strdup_path :: bool
  malloc_inode :: "addr option"
  strdup_name :: bool
  strdup_base :: bool
  tmpfile_stream :: "nat option"
  tmpfile_errno :: int
  calloc_layer :: "addr option"
  time_now :: int
  getuid :: nat
  getgid :: nat

text \<open>
  How a call ends. \<open>Returns v s\<close>: it returns \<open>v\<close> and leaves the state \<open>s\<close>.
  \<open>Blocked s\<close>: it never returns, because it waits in \<^verbatim>\<open>pthread_mutex_lock\<close> for a mutex
  that is locked and that nothing will unlock; \<open>s\<close> is the state at that point.
  \<open>Undefined\<close>: it ran into undefined behaviour of C (a null or dangling pointer, an
  uninitialised variable, an unterminated buffer), after which nothing is known.
\<close>

datatype 'a outcome = Returns 'a state | Blocked state | Undefined

definition after :: "'a outcome \<Rightarrow> ('a \<Rightarrow> state \<Rightarrow> 'b outcome) \<Rightarrow> 'b outcome" where
  "after m k = (case m of Returns v s \<Rightarrow> k v s | Blocked s \<Rightarrow> Blocked s | Undefined \<Rightarrow> Undefined)"

definition reached :: "'a outcome \<Rightarrow> state option" where
  "reached m = (case m of Returns v s \<Rightarrow> Some s | Blocked s \<Rightarrow> Some s | Undefined \<Rightarrow> None)"

definition with_inode :: "state \<Rightarrow> addr \<Rightarrow> (inode \<Rightarrow> 'a outcome) \<Rightarrow> 'a outcome" where
  "with_inode s i k = (case inodes s i of None \<Rightarrow> Undefined | Some ino \<Rightarrow> k ino)"

definition with_layer :: "state \<Rightarrow> addr \<Rightarrow> (layer \<Rightarrow> 'a outcome) \<Rightarrow> 'a outcome" where
  "with_layer s l k = (case layers s l of None \<Rightarrow> Undefined | Some ly \<Rightarrow> k ly)"

definition set_inode :: "state \<Rightarrow> addr \<Rightarrow> inode \<Rightarrow> state" where
  "set_inode s i ino = s\<lparr>inodes := (inodes s)(i \<mapsto> ino)\<rparr>"

definition set_layer :: "state \<Rightarrow> addr \<Rightarrow> layer \<Rightarrow> state" where
  "set_layer s l ly = s\<lparr>layers := (layers s)(l \<mapsto> ly)\<rparr>"

subsection \<open>The hash table and the locks\<close>

text \<open>
  Modelled from the spec: \<^verbatim>\<open>hash.c\<close> is not under src/. The spec's Associative Map is a
  string-keyed store with \<open>create(capacity) -> Map\<close>, \<open>get(map, key) -> value?\<close>,
  \<open>set(map, key, value)\<close> and \<open>remove(map, key)\<close>. \<open>create\<close> always gives a map, so the
  test of its result in \<^verbatim>\<open>init_layers\<close> (line 346) is never true.
\<close>

definition ht_create :: "nat \<Rightarrow> (string \<rightharpoonup> addr)" where
  "ht_create capacity = Map.empty"

definition ht_get :: "(string \<rightharpoonup> addr) \<Rightarrow> string \<Rightarrow> addr option" where
  "ht_get m k = m k"

definition ht_set :: "(string \<rightharpoonup> addr) \<Rightarrow> string \<Rightarrow> addr \<Rightarrow> (string \<rightharpoonup> addr)" where
  "ht_set m k v = m(k \<mapsto> v)"

definition ht_remove :: "(string \<rightharpoonup> addr) \<Rightarrow> string \<Rightarrow> (string \<rightharpoonup> addr)" where
  "ht_remove m k = m(k := None)"

text \<open>
  The inode mutexes are initialised with \<^verbatim>\<open>pthread_mutex_init(&inode->lock, NULL)\<close>: the
  default kind, which is not recursive. Locking one that is locked waits until it is
  unlocked; when the holder is the caller itself, or a call that has ended blocked,
  that is forever. Each takes the address of the inode whose \<^verbatim>\<open>lock\<close> it works on.
\<close>

definition pthread_mutex_init :: "state \<Rightarrow> addr \<Rightarrow> unit outcome" where
  "pthread_mutex_init s i =
     with_inode s i (\<lambda>ino. Returns () (set_inode s i (ino\<lparr>lock := False\<rparr>)))"

definition pthread_mutex_lock :: "state \<Rightarrow> addr \<Rightarrow> unit outcome" where
  "pthread_mutex_lock s i =
     with_inode s i (\<lambda>ino.
       if lock ino then Blocked s
       else Returns () (set_inode s i (ino\<lparr>lock := True\<rparr>)))"

definition pthread_mutex_unlock :: "state \<Rightarrow> addr \<Rightarrow> unit outcome" where
  "pthread_mutex_unlock s i =
     with_inode s i (\<lambda>ino. Returns () (set_inode s i (ino\<lparr>lock := False\<rparr>)))"

definition pthread_rwlock_rdlock :: "state \<Rightarrow> state" where
  "pthread_rwlock_rdlock s = s\<lparr>reaper_readers := Suc (reaper_readers s)\<rparr>"

definition pthread_rwlock_unlock :: "state \<Rightarrow> state" where
  "pthread_rwlock_unlock s = s\<lparr>reaper_readers := reaper_readers s - 1\<rparr>"

subsection \<open>\<^verbatim>\<open>alloc_inode\<close> (lines 28-114)\<close>

text \<open>
  The three early failures (\<^verbatim>\<open>malloc\<close>, the two \<^verbatim>\<open>strdup\<close>) jump to \<^verbatim>\<open>done\<close>, which reads
  \<^verbatim>\<open>dupname\<close> or \<^verbatim>\<open>inode->f\<close> before anything was stored there: \<open>Undefined\<close>. A failure of
  \<^verbatim>\<open>tmpfile\<close> comes after \<^verbatim>\<open>inode->f\<close>, \<^verbatim>\<open>dupname\<close> and \<^verbatim>\<open>inode->name\<close> are set: the inode is
  freed and the function returns null, having changed only \<^verbatim>\<open>errno\<close>.

  Line 73 initialises the mutex of the new inode. With a parent, the new inode is pushed
  on the parent's child list under the parent's mutex (lines 77-86); lines 88-89 then
  reset \<^verbatim>\<open>child\<close> and \<^verbatim>\<open>next\<close> of the new inode. The
  key of \<^verbatim>\<open>ht_set\<close> (line 91) is \<^verbatim>\<open>name\<close> as \<open>basename\<close> left it.
\<close>

definition alloc_inode ::
  "env \<Rightarrow> state \<Rightarrow> addr option \<Rightarrow> string \<Rightarrow> mode_t \<Rightarrow> addr \<Rightarrow> addr option outcome" where
  "alloc_inode e s parent_arg name_arg mode_arg layer_arg =
     (case malloc_inode e of
        None \<Rightarrow> Undefined
      | Some a \<Rightarrow>
          if \<not> strdup_name e then Undefined
          else if \<not> strdup_base e then Undefined
          else if mode_arg AND S_IFREG \<noteq> 0 \<and> tmpfile_stream e = None
            then Returns None (s\<lparr>errno := tmpfile_errno e\<rparr>)
          else
            (let ino = \<lparr>ref = 1, deleted = False, name = fst (basename name_arg),
                        atime = time_now e, mtime = time_now e, ctime = time_now e,
                        uid = getuid e, gid = getgid e, mode = mode_arg,
                        fstream = (case tmpfile_stream e of
                                     Some h \<Rightarrow> if mode_arg AND S_IFREG \<noteq> 0 then Holds h else Garbage
                                   | None \<Rightarrow> Garbage),
                        lock = False, layer = layer_arg,
                        parent = (case parent_arg of None \<Rightarrow> Garbage | Some p \<Rightarrow> Holds p),
                        child = None, next_sibling = None\<rparr>
             in after
                  (after (pthread_mutex_init (set_inode s a ino) a) (\<lambda>_ s1.
                     case parent_arg of
                       None \<Rightarrow> Returns () s1
                     | Some p \<Rightarrow>
                         after (pthread_mutex_lock s1 p) (\<lambda>_ s2.
                           with_inode s2 p (\<lambda>pino.
                             with_inode s2 a (\<lambda>nino.
                               pthread_mutex_unlock
                                 (set_inode (set_inode s2 a (nino\<lparr>next_sibling := child pino\<rparr>))
                                    p (pino\<lparr>child := Some a\<rparr>))
                                 p)))))
                  (\<lambda>_ s3.
                     with_inode s3 a (\<lambda>nino.
                       (let s4 = set_inode s3 a (nino\<lparr>child := None, next_sibling := None\<rparr>)
                        in with_layer s4 layer_arg (\<lambda>ly.
                             Returns (Some a)
                               (set_layer s4 layer_arg
                                  (ly\<lparr>children :=
                                        ht_set (children ly) (snd (basename name_arg)) a\<rparr>))))))))"

subsection \<open>\<^verbatim>\<open>get_layer\<close> (lines 116-151)\<close>

text \<open>
  The first character of \<^verbatim>\<open>path\<close> is skipped (\<^verbatim>\<open>path + 1\<close>), whatever it is; on the empty
  string that points past the terminator. The layer id is the text up to the next
  slash; the remaining path starts at that slash, or is \<^verbatim>\<open>"/"\<close> when there is none.
  Line 146 sets \<^verbatim>\<open>errno\<close> to \<^verbatim>\<open>ENOENT\<close> whenever no layer is returned, also when that is
  because \<^verbatim>\<open>strdup\<close> failed.
\<close>

definition layer_segment :: "string \<Rightarrow> string" where
  "layer_segment path = takeWhile (\<lambda>c. c \<noteq> CHR ''/'') (tl path)"

definition remaining_path :: "string \<Rightarrow> string" where
  "remaining_path path =
     (case dropWhile (\<lambda>c. c \<noteq> CHR ''/'') (tl path) of [] \<Rightarrow> ''/'' | c # cs \<Rightarrow> c # cs)"

definition get_layer :: "env \<Rightarrow> state \<Rightarrow> string \<Rightarrow> (addr option \<times> string option) outcome" where
  "get_layer e s path =
     (if path = [] then Undefined
      else if \<not> strdup_path e then Returns (None, None) (s\<lparr>errno := ENOENT\<rparr>)
      else
        (case ht_get (layer_hash s) (layer_segment path) of
           None \<Rightarrow> Returns (None, Some (remaining_path path)) (s\<lparr>errno := ENOENT\<rparr>)
         | Some l \<Rightarrow> Returns (Some l, Some (remaining_path path)) s))"

subsection \<open>\<^verbatim>\<open>ref_inode\<close> (lines 155-223)\<close>

text \<open>
  Lines 182-188, run when a layer's index has the path: lock the inode's mutex,
  increment \<^verbatim>\<open>ref\<close>, and then (line 186) call \<^verbatim>\<open>pthread_mutex_lock\<close> on the same mutex
  again, where \<^verbatim>\<open>pthread_mutex_unlock\<close> was meant. \<^verbatim>\<open>ref++\<close> at \<open>INT_MAX\<close> overflows.
\<close>

definition take_ref :: "state \<Rightarrow> addr \<Rightarrow> unit outcome" where
  "take_ref s i =
     after (pthread_mutex_lock s i) (\<lambda>_ s1.
       with_inode s1 i (\<lambda>ino.
         if ref ino = INT_MAX then Undefined
         else pthread_mutex_lock (set_inode s1 i (ino\<lparr>ref := ref ino + 1\<rparr>)) i))"

text \<open>
  The loop of lines 178-199, from the layer addressed up the \<^verbatim>\<open>parent\<close> links. It
  returns the inode found (or null), \<^verbatim>\<open>parent\<close> and \<^verbatim>\<open>parent_layer\<close>. While no parent
  directory has been found, every layer visited is asked for the directory and becomes
  \<^verbatim>\<open>parent_layer\<close> (lines 193-196). The loop ends when a layer has no parent; on a store
  whose parent links form a cycle it need not end, which is the value \<open>None\<close>.
\<close>

partial_function (option) walk ::
  "state \<Rightarrow> string \<Rightarrow> string \<Rightarrow> addr option \<Rightarrow> addr option \<Rightarrow> addr \<Rightarrow>
   (addr option \<times> addr option \<times> addr) outcome option" where
  "walk s fixed_path dir layer_ptr parent_ptr parent_layer =
     (case layer_ptr of
        None \<Rightarrow> Some (Returns (None, parent_ptr, parent_layer) s)
      | Some l \<Rightarrow>
          (case layers s l of
             None \<Rightarrow> Some Undefined
           | Some ly \<Rightarrow>
               (case ht_get (children ly) fixed_path of
                  Some i \<Rightarrow>
                    Some (after (take_ref s i)
                            (\<lambda>_ s'. Returns (Some i, parent_ptr, parent_layer) s'))
                | None \<Rightarrow>
                    if parent_ptr = None
                    then walk s fixed_path dir (lparent ly) (ht_get (children ly) dir) l
                    else walk s fixed_path dir (lparent ly) parent_ptr parent_layer)))"

declare walk.simps [code]

text \<open>Lines 212-222: release the read lock; a null result with \<^verbatim>\<open>errno\<close> still 0 sets \<^verbatim>\<open>ENOENT\<close>.\<close>

definition ref_inode_done :: "state \<Rightarrow> addr option \<Rightarrow> addr option outcome" where
  "ref_inode_done s inode_ptr =
     (let s1 = pthread_rwlock_unlock s
      in Returns inode_ptr (if inode_ptr = None \<and> errno s1 = 0 then s1\<lparr>errno := ENOENT\<rparr> else s1))"

text \<open>
  \<^verbatim>\<open>strncpy(file, fixed_path, sizeof(file))\<close> leaves \<^verbatim>\<open>file\<close> without a terminator when the
  remaining path has \<^verbatim>\<open>PATH_MAX\<close> characters or more, and \<^verbatim>\<open>dirname\<close> then reads past the
  buffer.
\<close>

definition ref_inode :: "env \<Rightarrow> state \<Rightarrow> string \<Rightarrow> bool \<Rightarrow> mode_t \<Rightarrow> addr option outcome option" where
  "ref_inode e s path create mode_arg =
     (case get_layer e ((pthread_rwlock_rdlock s)\<lparr>errno := 0\<rparr>) path of
        Undefined \<Rightarrow> Some Undefined
      | Blocked b \<Rightarrow> Some (Blocked b)
      | Returns (None, fixed) s1 \<Rightarrow> Some (ref_inode_done s1 None)
      | Returns (Some l, None) s1 \<Rightarrow> Some Undefined
      | Returns (Some l, Some fixed_path) s1 \<Rightarrow>
          if PATH_MAX \<le> length fixed_path then Some Undefined
          else
            (case walk s1 fixed_path (dirname fixed_path) (Some l) None l of
               None \<Rightarrow> None
             | Some Undefined \<Rightarrow> Some Undefined
             | Some (Blocked b) \<Rightarrow> Some (Blocked b)
             | Some (Returns (Some i, parent_ptr, parent_layer) s2) \<Rightarrow>
                 Some (ref_inode_done s2 (Some i))
             | Some (Returns (None, parent_ptr, parent_layer) s2) \<Rightarrow>
                 if create then
                   (case parent_ptr of
                      None \<Rightarrow> Some (ref_inode_done s2 None)
                    | Some p \<Rightarrow>
                        Some (after (alloc_inode e s2 (Some p) fixed_path mode_arg parent_layer)
                                (\<lambda>r s3. ref_inode_done s3 r)))
                 else Some (ref_inode_done s2 None)))"

subsection \<open>\<^verbatim>\<open>deref_inode\<close> and \<^verbatim>\<open>delete_inode\<close> (lines 227-240)\<close>

text \<open>
  \<^verbatim>\<open>deref_inode\<close> is lock, decrement, and (line 233) lock again. Nothing compares the
  count with zero, and nothing in the file removes an inode from an index or frees it.
  \<^verbatim>\<open>ref--\<close> at \<open>INT_MIN\<close> overflows.
\<close>

definition deref_inode :: "state \<Rightarrow> addr \<Rightarrow> unit outcome" where
  "deref_inode s i =
     after (pthread_mutex_lock s i) (\<lambda>_ s1.
       with_inode s1 i (\<lambda>ino.
         if ref ino = INT_MIN then Undefined
         else pthread_mutex_lock (set_inode s1 i (ino\<lparr>ref := ref ino - 1\<rparr>)) i))"

definition delete_inode :: "state \<Rightarrow> addr \<Rightarrow> unit outcome" where
  "delete_inode s i = with_inode s i (\<lambda>ino. Returns () (set_inode s i (ino\<lparr>deleted := True\<rparr>)))"

subsection \<open>Layer lifecycle (lines 242-353)\<close>

text \<open>
  A \<^verbatim>\<open>char *\<close> argument as line 257 tests it, \<^verbatim>\<open>parent_id && parent_id != ""\<close>: the second
  test compares addresses, so it fails only for a pointer to that literal itself. The
  argument is null, or that literal, or a string anywhere else (the empty string
  included).
\<close>

datatype id_ptr = Null_ptr | Empty_literal | Str string

text \<open>
  \<^verbatim>\<open>create_layer\<close>: the root is allocated with the mode \<^verbatim>\<open>0777 & S_IFDIR\<close> (octal 0777 is
  0x1FF). \<^verbatim>\<open>calloc\<close> zeroes
  the layer and sets \<^verbatim>\<open>errno\<close> to \<^verbatim>\<open>ENOMEM\<close> when it fails. The layer is entered in
  \<^verbatim>\<open>layer_hash\<close> (line 284) after \<^verbatim>\<open>deref_inode\<close> has returned (line 282). On an error
  after the allocation the layer is freed.
\<close>

definition create_layer :: "env \<Rightarrow> state \<Rightarrow> string \<Rightarrow> id_ptr \<Rightarrow> int outcome" where
  "create_layer e s lid parent_id =
     (case ht_get (layer_hash s) lid of
        Some l \<Rightarrow> Returns (- EEXIST) (s\<lparr>errno := EEXIST\<rparr>)
      | None \<Rightarrow>
          (case (case parent_id of
                   Str p \<Rightarrow> (case ht_get (layer_hash s) p of
                               None \<Rightarrow> Inl ENOENT
                             | Some pl \<Rightarrow> Inr (Some pl))
                 | Empty_literal \<Rightarrow> Inr None
                 | Null_ptr \<Rightarrow> Inr None) of
             Inl err \<Rightarrow> Returns (- err) (s\<lparr>errno := err\<rparr>)
           | Inr parent_layer \<Rightarrow>
               (case calloc_layer e of
                  None \<Rightarrow> Returns (- ENOMEM) (s\<lparr>errno := ENOMEM\<rparr>)
                | Some la \<Rightarrow>
                    (let s1 = set_layer s la
                                \<lparr>upper = False, lparent = parent_layer,
                                 children = ht_create 65536, root = None\<rparr>
                     in case alloc_inode e s1 None ''/'' (0x1FF AND S_IFDIR) la of
                          Undefined \<Rightarrow> Undefined
                        | Blocked b \<Rightarrow> Blocked b
                        | Returns None s2 \<Rightarrow>
                            if errno s2 \<noteq> 0
                            then Returns (- errno s2) (s2\<lparr>layers := (layers s2)(la := None)\<rparr>)
                            else Returns 0 s2
                        | Returns (Some r) s2 \<Rightarrow>
                            with_layer s2 la (\<lambda>ly.
                              after (deref_inode (set_layer s2 la (ly\<lparr>root := Some r\<rparr>)) r)
                                (\<lambda>_ s3. Returns 0
                                   (s3\<lparr>layer_hash := ht_set (layer_hash s3) lid la\<rparr>)))))))"

definition remove_layer :: "state \<Rightarrow> string \<Rightarrow> int outcome" where
  "remove_layer s lid = Returns 0 (s\<lparr>layer_hash := ht_remove (layer_hash s) lid\<rparr>)"

definition set_upper :: "state \<Rightarrow> string \<Rightarrow> int outcome" where
  "set_upper s lid =
     (case ht_get (layer_hash s) lid of
        None \<Rightarrow> Returns (- 1) (s\<lparr>errno := ENOENT\<rparr>)
      | Some l \<Rightarrow> with_layer s l (\<lambda>ly. Returns 0 ((set_layer s l (ly\<lparr>upper := True\<rparr>))\<lparr>errno := 0\<rparr>)))"

definition unset_upper :: "state \<Rightarrow> string \<Rightarrow> int outcome" where
  "unset_upper s lid =
     (case ht_get (layer_hash s) lid of
        None \<Rightarrow> Returns (- 1) (s\<lparr>errno := ENOENT\<rparr>)
      | Some l \<Rightarrow> with_layer s l (\<lambda>ly. Returns 0 ((set_layer s l (ly\<lparr>upper := False\<rparr>))\<lparr>errno := 0\<rparr>)))"

text \<open>
  \<^verbatim>\<open>init_layers\<close> makes the registry and initialises the reaper lock. Before it, the
  process has no layer and no inode: \<open>fresh\<close>.
\<close>

definition init_layers :: "state \<Rightarrow> int outcome" where
  "init_layers s = Returns 0 (s\<lparr>layer_hash := ht_create 65536, reaper_readers := 0\<rparr>)"

definition fresh :: state where
  "fresh = \<lparr>layer_hash = Map.empty, layers = Map.empty, inodes = Map.empty,
            reaper_readers = 0, errno = 0\<rparr>"

subsection \<open>Engines to run the code on\<close>

text \<open>
  \<open>demo\<close>: a layer \<^verbatim>\<open>base\<close> (at address 100) with \<^verbatim>\<open>/\<close>, \<^verbatim>\<open>/etc\<close>, \<^verbatim>\<open>/etc/hosts\<close> and \<^verbatim>\<open>/var\<close>, and
  a layer \<^verbatim>\<open>top\<close> (at 101) on it with \<^verbatim>\<open>/\<close>, \<^verbatim>\<open>/etc\<close> and \<^verbatim>\<open>/etc/hosts\<close> of its own. No mutex
  is locked. Inode 3, \<^verbatim>\<open>/etc/hosts\<close> of \<^verbatim>\<open>base\<close>, is marked deleted and has one reference left.
  \<open>libc_fine\<close> is a C library whose allocations all succeed, \<^verbatim>\<open>malloc\<close> with the address 8.
  The engine is written down, not built by calls: no call of \<^verbatim>\<open>create_layer\<close> gets as far
  as the registry (\<open>create_layer_never_succeeds\<close> below).
\<close>

definition entry :: "string \<Rightarrow> addr \<Rightarrow> addr slot \<Rightarrow> addr option \<Rightarrow> inode" where
  "entry n l p c =
     \<lparr>ref = 0, deleted = False, name = n, atime = 0, mtime = 0, ctime = 0, uid = 0, gid = 0,
      mode = 0, fstream = Garbage, lock = False, layer = l, parent = p, child = c,
      next_sibling = None\<rparr>"

definition demo :: state where
  "demo =
     \<lparr>layer_hash = [''base'' \<mapsto> 100, ''top'' \<mapsto> 101],
      layers =
        [100 \<mapsto> \<lparr>upper = False, lparent = None,
                  children = [''/'' \<mapsto> 1, ''/etc'' \<mapsto> 2, ''/etc/hosts'' \<mapsto> 3, ''/var'' \<mapsto> 4],
                  root = Some 1\<rparr>,
         101 \<mapsto> \<lparr>upper = True, lparent = Some 100,
                  children = [''/'' \<mapsto> 5, ''/etc'' \<mapsto> 6, ''/etc/hosts'' \<mapsto> 7],
                  root = Some 5\<rparr>],
      inodes =
        [1 \<mapsto> entry ''/'' 100 Garbage (Some 4),
         2 \<mapsto> entry ''etc'' 100 (Holds 1) (Some 3),
         3 \<mapsto> (entry ''hosts'' 100 (Holds 2) None)\<lparr>ref := 1, deleted := True\<rparr>,
         4 \<mapsto> entry ''var'' 100 (Holds 1) None,
         5 \<mapsto> entry ''/'' 101 Garbage (Some 6),
         6 \<mapsto> entry ''etc'' 101 (Holds 5) (Some 7),
         7 \<mapsto> entry ''hosts'' 101 (Holds 6) None],
      reaper_readers = 0, errno = 0\<rparr>"

definition libc_fine :: env where
  "libc_fine =
     \<lparr>strdup_path = True, malloc_inode = Some 8, strdup_name = True, strdup_base = True,
      tmpfile_stream = Some 3, tmpfile_errno = 0, calloc_layer = Some 102,
      time_now = 1000, getuid = 0, getgid = 0\<rparr>"

subsection \<open>Notions the statements use\<close>

text \<open>
  \<open>indexed s l p\<close>: the inode the index of the layer at \<open>l\<close> has for the path \<open>p\<close>.
  \<open>lineage s lp ls\<close>: following the \<^verbatim>\<open>parent\<close> links from the pointer \<open>lp\<close> visits exactly
  the layers \<open>ls\<close>, in this order, and then reaches a null link. \<open>first_with s p ls\<close>: the
  first layer of \<open>ls\<close> whose index has \<open>p\<close>, with the inode it has.
\<close>

definition indexed :: "state \<Rightarrow> addr \<Rightarrow> string \<Rightarrow> addr option" where
  "indexed s l p = (case layers s l of None \<Rightarrow> None | Some ly \<Rightarrow> ht_get (children ly) p)"

fun lineage :: "state \<Rightarrow> addr option \<Rightarrow> addr list \<Rightarrow> bool" where
  "lineage s None ls = (ls = [])"
| "lineage s (Some l) [] = False"
| "lineage s (Some l) (x # xs) =
     (x = l \<and> (case layers s l of None \<Rightarrow> False | Some ly \<Rightarrow> lineage s (lparent ly) xs))"

fun first_with :: "state \<Rightarrow> string \<Rightarrow> addr list \<Rightarrow> (addr \<times> addr) option" where
  "first_with s p [] = None"
| "first_with s p (l # ls) =
     (case indexed s l p of Some i \<Rightarrow> Some (l, i) | None \<Rightarrow> first_with s p ls)"

text \<open>
  \<open>hit s i\<close>: how lines 182-188 end on the inode at \<open>i\<close>. If its mutex is free (and the
  count below \<open>INT_MAX\<close>), the mutex is locked, the count is incremented, and the second
  \<^verbatim>\<open>pthread_mutex_lock\<close> waits for the mutex the first one took.
\<close>

definition hit :: "state \<Rightarrow> addr \<Rightarrow> 'a outcome" where
  "hit s i =
     (case inodes s i of
        None \<Rightarrow> Undefined
      | Some ino \<Rightarrow>
          if lock ino then Blocked s
          else if ref ino = INT_MAX then Undefined
          else Blocked (s\<lparr>inodes := (inodes s)(i \<mapsto> ino\<lparr>lock := True, ref := ref ino + 1\<rparr>)\<rparr>))"

text \<open>
  \<open>libc_succeeds e\<close>: every allocation of the C library succeeds during the call.
\<close>

definition libc_succeeds :: "env \<Rightarrow> bool" where
  "libc_succeeds e =
     (strdup_path e \<and> malloc_inode e \<noteq> None \<and> strdup_name e \<and> strdup_base e \<and>
      tmpfile_stream e \<noteq> None \<and> calloc_layer e \<noteq> None)"

text \<open>
  \<open>base_engine\<close>: the registry holds one layer, \<^verbatim>\<open>base\<close>, with only its root \<^verbatim>\<open>/\<close> indexed:
  the layer \<^verbatim>\<open>create_layer("base", NULL)\<close> builds under \<open>libc_fine\<close> (layer at 102, root
  inode \<open>base_root\<close> at 8, count 0 after line 282), entered in the registry as line 284
  would, with the root's mutex free.
  \<open>libc_next\<close> is \<open>libc_fine\<close> with the next address, 9, from \<^verbatim>\<open>malloc\<close>. \<open>regular_file_mode\<close>
  is \<^verbatim>\<open>S_IFREG | 0644\<close>.
\<close>

definition regular_file_mode :: mode_t where
  "regular_file_mode = S_IFREG OR 0x1A4"

definition base_root :: inode where
  "base_root =
     \<lparr>ref = 0, deleted = False, name = ''/'', atime = 1000, mtime = 1000, ctime = 1000,
      uid = 0, gid = 0, mode = 0, fstream = Garbage, lock = False, layer = 102,
      parent = Garbage, child = None, next_sibling = None\<rparr>"

definition base_engine :: state where
  "base_engine =
     \<lparr>layer_hash = [''base'' \<mapsto> 102],
      layers = [102 \<mapsto> \<lparr>upper = False, lparent = None, children = [''/'' \<mapsto> 8], root = Some 8\<rparr>],
      inodes = [8 \<mapsto> base_root],
      reaper_readers = 0, errno = 0\<rparr>"

definition libc_next :: env where
  "libc_next = libc_fine\<lparr>malloc_inode := Some 9\<rparr>"

section \<open>Properties\<close>


subsection \<open>Auxiliary facts\<close>

lemma dirname_examples:
  "dirname ''/etc/conf'' = ''/etc''" "dirname ''/conf'' = ''/''" "dirname ''/'' = ''/''"
  "dirname ''/etc/x/'' = ''/etc''"
  by (simp_all add: dirname_def strip_slashes_def)

lemma root_mode: "(0x1FF::mode_t) AND S_IFDIR = 0"
  by (simp add: S_IFDIR_def)

lemma alloc_inode_no_parent_cases:
  "alloc_inode e s None n 0 la = Undefined \<or>
   (\<exists>a s2. alloc_inode e s None n 0 la = Returns (Some a) s2)"
  by (simp add: alloc_inode_def after_def with_inode_def with_layer_def set_inode_def
      pthread_mutex_init_def Let_def split: option.splits)

lemma ref_inode_unregistered:
  assumes "path \<noteq> []" and "layer_hash s (layer_segment path) = None"
  shows "ref_inode e s path c m = Some (Returns None (s\<lparr>errno := ENOENT\<rparr>))"
  using assms
  by (simp add: ref_inode_def get_layer_def ht_get_def ref_inode_done_def
      pthread_rwlock_rdlock_def pthread_rwlock_unlock_def ENOENT_def)

lemma create_layer_error_state:
  assumes "create_layer e s lid parent_id = Returns r s'" and "r \<noteq> 0"
  shows "s' = s\<lparr>errno := - r\<rparr>"
proof (cases "layer_hash s lid")
  case (Some l)
  with assms show ?thesis by (auto simp: create_layer_def ht_get_def)
next
  case None
  note unreg = this
  show ?thesis
  proof (cases "\<exists>p. parent_id = Str p \<and> layer_hash s p = None")
    case True
    with assms unreg show ?thesis by (auto simp: create_layer_def ht_get_def)
  next
    case False
    then obtain parent_layer where
      pl: "(case parent_id of
              Str p \<Rightarrow> (case ht_get (layer_hash s) p of None \<Rightarrow> Inl ENOENT | Some pl \<Rightarrow> Inr (Some pl))
            | Empty_literal \<Rightarrow> Inr None | Null_ptr \<Rightarrow> Inr None) = Inr parent_layer"
      by (cases parent_id) (auto simp: ht_get_def split: option.splits)
    show ?thesis
    proof (cases "calloc_layer e")
      case None
      with assms unreg pl show ?thesis by (auto simp: create_layer_def ht_get_def)
    next
      case (Some la)
      define s1 where "s1 = set_layer s la
          \<lparr>upper = False, lparent = parent_layer, children = ht_create 65536, root = None\<rparr>"
      from alloc_inode_no_parent_cases [of e s1 "''/''" la]
      show ?thesis
      proof
        assume "alloc_inode e s1 None ''/'' 0 la = Undefined"
        with assms unreg pl Some show ?thesis
          by (simp add: create_layer_def ht_get_def root_mode s1_def)
      next
        assume "\<exists>a s2. alloc_inode e s1 None ''/'' 0 la = Returns (Some a) s2"
        then obtain a s2 where "alloc_inode e s1 None ''/'' 0 la = Returns (Some a) s2" by blast
        with assms unreg pl Some show ?thesis
          by (auto simp: create_layer_def ht_get_def root_mode s1_def with_layer_def after_def
              deref_inode_def with_inode_def pthread_mutex_lock_def set_inode_def
              split: option.splits if_splits)
      qed
    qed
  qed
qed

text \<open>
  Neither \<^verbatim>\<open>deref_inode\<close> nor lines 182-188 of \<^verbatim>\<open>ref_inode\<close> ever return: each locks the
  mutex it already holds. \<^verbatim>\<open>create_layer\<close> calls \<^verbatim>\<open>deref_inode\<close> on the root before it
  registers the layer, so it never returns 0.
\<close>

lemma deref_inode_never_returns: "deref_inode s i \<noteq> Returns u s'"
  by (simp add: deref_inode_def after_def with_inode_def pthread_mutex_lock_def set_inode_def
      split: option.splits)

lemma take_ref_never_returns: "take_ref s i \<noteq> Returns u s'"
  by (simp add: take_ref_def after_def with_inode_def pthread_mutex_lock_def set_inode_def
      split: option.splits)

lemma create_layer_never_succeeds:
  assumes "create_layer e s lid parent_id = Returns r s'"
  shows "r \<noteq> 0"
proof
  assume "r = 0"
  with assms have run: "create_layer e s lid parent_id = Returns 0 s'" by simp
  then have unreg: "layer_hash s lid = None"
    by (cases "layer_hash s lid") (simp_all add: create_layer_def ht_get_def EEXIST_def)
  from run unreg obtain parent_layer where
    pl: "(case parent_id of
            Str p \<Rightarrow> (case ht_get (layer_hash s) p of None \<Rightarrow> Inl ENOENT | Some pl \<Rightarrow> Inr (Some pl))
          | Empty_literal \<Rightarrow> Inr None | Null_ptr \<Rightarrow> Inr None) = Inr parent_layer"
    by (cases parent_id)
      (auto simp: create_layer_def ht_get_def ENOENT_def split: option.splits)
  from run unreg pl obtain la where la: "calloc_layer e = Some la"
    by (cases "calloc_layer e") (simp_all add: create_layer_def ht_get_def ENOMEM_def)
  define s1 where "s1 = set_layer s la
      \<lparr>upper = False, lparent = parent_layer, children = ht_create 65536, root = None\<rparr>"
  from alloc_inode_no_parent_cases [of e s1 "''/''" la]
  show False
  proof
    assume "alloc_inode e s1 None ''/'' 0 la = Undefined"
    with run unreg pl la show False
      by (simp add: create_layer_def ht_get_def root_mode s1_def)
  next
    assume "\<exists>a s2. alloc_inode e s1 None ''/'' 0 la = Returns (Some a) s2"
    then obtain a s2 where "alloc_inode e s1 None ''/'' 0 la = Returns (Some a) s2" by blast
    with run unreg pl la show False
      by (auto simp: create_layer_def ht_get_def root_mode s1_def with_layer_def after_def
          deref_inode_never_returns split: option.splits outcome.splits)
  qed
qed

subsection \<open>Layer lifecycle\<close>

text \<open>
  C7: \<^verbatim>\<open>create_layer\<close> on an id that is already in the registry fails with
  \<^verbatim>\<open>AlreadyExists\<close>: it returns \<^verbatim>\<open>-EEXIST\<close> with \<^verbatim>\<open>errno = EEXIST\<close>, whatever the parent
  argument is. On an id that is not registered, with a parent id that is given and not
  registered, it fails with \<^verbatim>\<open>NotFound\<close>: it returns \<^verbatim>\<open>-ENOENT\<close> with \<^verbatim>\<open>errno = ENOENT\<close>. The
  test of the id comes first (line 249), so it decides when both apply. Neither failure
  changes anything but \<^verbatim>\<open>errno\<close>.
\<close>

theorem create_layer_rejects:
  "(layer_hash s lid = Some l \<longrightarrow>
      create_layer e s lid parent_id = Returns (- EEXIST) (s\<lparr>errno := EEXIST\<rparr>)) \<and>
   (layer_hash s lid = None \<and> layer_hash s p = None \<longrightarrow>
      create_layer e s lid (Str p) = Returns (- ENOENT) (s\<lparr>errno := ENOENT\<rparr>))"
  by (simp add: create_layer_def ht_get_def)

theorem create_layer_rejects_witness:
  "create_layer libc_fine demo ''base'' Null_ptr = Returns (- EEXIST) (demo\<lparr>errno := EEXIST\<rparr>) \<and>
   create_layer libc_fine demo ''top'' (Str ''missing'') = Returns (- EEXIST) (demo\<lparr>errno := EEXIST\<rparr>) \<and>
   create_layer libc_fine demo ''y'' (Str ''missing'') = Returns (- ENOENT) (demo\<lparr>errno := ENOENT\<rparr>)"
  using create_layer_rejects [of demo "''base''" 100 libc_fine Null_ptr "''missing''"]
    create_layer_rejects [of demo "''top''" 101 libc_fine "Str ''missing''" "''missing''"]
    create_layer_rejects [of demo "''y''" 0 libc_fine Null_ptr "''missing''"]
  by (simp add: demo_def)

text \<open>
  C9: whenever \<^verbatim>\<open>create_layer\<close> returns an error (a return value other than 0: the id is
  registered already, the parent is not registered, or \<^verbatim>\<open>calloc\<close> failed), the registry
  is as it was before the call, and so are the layers and the inodes. In particular, if
  the id was not registered before, it is not registered afterwards: every \<^verbatim>\<open>ref_inode\<close>
  on a path addressed to it returns null with \<^verbatim>\<open>errno = ENOENT\<close>.
\<close>

theorem create_layer_error_keeps_registry:
  assumes "create_layer e s lid parent_id = Returns r s'" and "r \<noteq> 0"
  shows "layer_hash s' = layer_hash s \<and> layers s' = layers s \<and> inodes s' = inodes s \<and>
         (layer_hash s lid = None \<longrightarrow>
            (\<forall>e' path c m. path \<noteq> [] \<and> layer_segment path = lid \<longrightarrow>
               ref_inode e' s' path c m = Some (Returns None (s'\<lparr>errno := ENOENT\<rparr>))))"
proof -
  from assms have s': "s' = s\<lparr>errno := - r\<rparr>" by (rule create_layer_error_state)
  have "ref_inode e' s' path c m = Some (Returns None (s'\<lparr>errno := ENOENT\<rparr>))"
    if "layer_hash s lid = None" and "path \<noteq> []" and "layer_segment path = lid" for e' path c m
    using that s' by (intro ref_inode_unregistered) simp_all
  with s' show ?thesis by simp
qed

theorem create_layer_error_keeps_registry_witness:
  "create_layer (libc_fine\<lparr>calloc_layer := None\<rparr>) demo ''mid'' (Str ''base'') =
     Returns (- ENOMEM) (demo\<lparr>errno := ENOMEM\<rparr>) \<and>
   layer_hash (demo\<lparr>errno := ENOMEM\<rparr>) = layer_hash demo \<and>
   ref_inode libc_fine (demo\<lparr>errno := ENOMEM\<rparr>) ''/mid/etc'' True 0 =
     Some (Returns None (demo\<lparr>errno := ENOENT\<rparr>))"
proof -
  have run: "create_layer (libc_fine\<lparr>calloc_layer := None\<rparr>) demo ''mid'' (Str ''base'') =
      Returns (- ENOMEM) (demo\<lparr>errno := ENOMEM\<rparr>)"
    by (simp add: create_layer_def ht_get_def demo_def libc_fine_def)
  have err: "- ENOMEM \<noteq> 0" by (simp add: ENOMEM_def)
  have unreg: "layer_hash demo ''mid'' = None" by (simp add: demo_def)
  from create_layer_error_keeps_registry [OF run err] unreg
  have "ref_inode libc_fine (demo\<lparr>errno := ENOMEM\<rparr>) ''/mid/etc'' True 0 =
      Some (Returns None (demo\<lparr>errno := ENOMEM\<rparr>\<lparr>errno := ENOENT\<rparr>))"
    by (simp add: layer_segment_def)
  with run show ?thesis by simp
qed

subsection \<open>Facts about the walk and about lookups\<close>

lemma after_take_ref: "after (take_ref s i) k = hit s i"
  by (simp add: take_ref_def hit_def after_def with_inode_def pthread_mutex_lock_def set_inode_def
      split: option.splits)

lemma first_with_None: "first_with s p ls = None \<longleftrightarrow> (\<forall>x\<in>set ls. indexed s x p = None)"
  by (induction ls) (auto split: option.splits)

lemma first_with_Some:
  "first_with s p ls = Some (l, i) \<Longrightarrow> l \<in> set ls \<and> indexed s l p = Some i"
  by (induction ls) (auto split: option.splits)

lemma first_with_append:
  "first_with s p (xs @ ys) =
     (case first_with s p xs of Some r \<Rightarrow> Some r | None \<Rightarrow> first_with s p ys)"
  by (induction xs) (auto split: option.splits)

lemma indexed_same_layers: "layers s' = layers s \<Longrightarrow> indexed s' l p = indexed s l p"
  by (simp add: indexed_def)

lemma first_with_same_layers: "layers s' = layers s \<Longrightarrow> first_with s' p ls = first_with s p ls"
  by (induction ls) (auto simp: indexed_def split: option.splits)

lemma lineage_same_layers:
  assumes "layers s' = layers s"
  shows "lineage s' lp ls = lineage s lp ls"
proof (induction ls arbitrary: lp)
  case Nil
  show ?case by (cases lp) simp_all
next
  case (Cons x xs)
  show ?case
  proof (cases lp)
    case None
    then show ?thesis by simp
  next
    case (Some l)
    note lp = this
    show ?thesis
    proof (cases "layers s l")
      case None
      with lp assms show ?thesis by simp
    next
      case (Some ly)
      with lp assms Cons.IH [of "lparent ly"] show ?thesis by simp
    qed
  qed
qed

lemma walk_lineage:
  assumes "lineage s lp ls"
  shows "walk s p d lp par pl =
     Some (case first_with s p ls of
             Some (l, i) \<Rightarrow> hit s i
           | None \<Rightarrow>
               Returns (None,
                 (case par of Some q \<Rightarrow> Some q | None \<Rightarrow> map_option snd (first_with s d ls)),
                 (case par of Some q \<Rightarrow> pl
                  | None \<Rightarrow> (case first_with s d ls of Some (l, i) \<Rightarrow> l
                             | None \<Rightarrow> if ls = [] then pl else last ls))) s)"
  using assms
proof (induction ls arbitrary: lp par pl)
  case Nil
  then have "lp = None" by (cases lp) simp_all
  then show ?case by (subst walk.simps) (simp split: option.splits)
next
  case (Cons x xs)
  then obtain ly where lp: "lp = Some x" and ly: "layers s x = Some ly"
    and rest: "lineage s (lparent ly) xs"
    by (cases lp) (auto split: option.splits)
  show ?case
  proof (cases "indexed s x p")
    case (Some i)
    with lp ly show ?thesis
      by (subst walk.simps) (simp add: indexed_def after_take_ref)
  next
    case None
    note miss = this
    show ?thesis
    proof (cases par)
      case (Some q)
      with lp ly miss Cons.IH [OF rest, of "Some q" pl] show ?thesis
        by (subst walk.simps) (auto simp: indexed_def split: option.splits)
    next
      case None
      with lp ly miss Cons.IH [OF rest, of "ht_get (children ly) d" x] show ?thesis
        by (subst walk.simps) (auto simp: indexed_def split: option.splits)
    qed
  qed
qed



lemma walk_shape:
  assumes "walk s p d lp par pl = Some out"
  shows "out = Undefined \<or> (\<exists>r q. out = Returns (None, r, q) s) \<or>
         (\<exists>l i. indexed s l p = Some i \<and> out = hit s i)"
  using assms
proof (induction rule: walk.raw_induct [rotated 1, consumes 1])
  case (1 walk' s p d lp par pl out)
  note body = "1.hyps" and IH = "1.IH"
  show ?case
  proof (cases lp)
    case None
    with body have "out = Returns (None, par, pl) s" by simp
    then show ?thesis by blast
  next
    case (Some l)
    note lp = this
    show ?thesis
    proof (cases "layers s l")
      case None
      with lp body have "out = Undefined" by simp
      then show ?thesis by blast
    next
      case (Some ly)
      note ly = this
      show ?thesis
      proof (cases "ht_get (children ly) p")
        case (Some i)
        with lp ly body have "out = hit s i" by (simp add: after_take_ref)
        moreover from Some ly have "indexed s l p = Some i" by (simp add: indexed_def)
        ultimately show ?thesis by blast
      next
        case None
        show ?thesis
        proof (cases "par = None")
          case True
          with None lp ly body
          have "walk' s p d (lparent ly) (ht_get (children ly) d) l = Some out" by simp
          then show ?thesis by (rule IH)
        next
          case False
          with None lp ly body
          have "walk' s p d (lparent ly) par pl = Some out" by simp
          then show ?thesis by (rule IH)
        qed
      qed
    qed
  qed
qed

lemma get_layer_registered:
  assumes "path \<noteq> []" and "strdup_path e" and "layer_hash s (layer_segment path) = Some l"
  shows "get_layer e s path = Returns (Some l, Some (remaining_path path)) s"
  using assms by (simp add: get_layer_def ht_get_def)

lemma ref_inode_registered:
  assumes "path \<noteq> []" and "strdup_path e" and "layer_hash s (layer_segment path) = Some l"
    and "length (remaining_path path) < PATH_MAX"
    and "walk ((pthread_rwlock_rdlock s)\<lparr>errno := 0\<rparr>) (remaining_path path)
           (dirname (remaining_path path)) (Some l) None l = w"
  shows "ref_inode e s path c m =
     (case w of
        None \<Rightarrow> None
      | Some Undefined \<Rightarrow> Some Undefined
      | Some (Blocked b) \<Rightarrow> Some (Blocked b)
      | Some (Returns (Some i, parent_ptr, parent_layer) s2) \<Rightarrow> Some (ref_inode_done s2 (Some i))
      | Some (Returns (None, parent_ptr, parent_layer) s2) \<Rightarrow>
          if c then
            (case parent_ptr of
               None \<Rightarrow> Some (ref_inode_done s2 None)
             | Some p \<Rightarrow>
                 Some (after (alloc_inode e s2 (Some p) (remaining_path path) m parent_layer)
                         (\<lambda>r s3. ref_inode_done s3 r)))
          else Some (ref_inode_done s2 None))"
proof -
  have "get_layer e ((pthread_rwlock_rdlock s)\<lparr>errno := 0\<rparr>) path =
      Returns (Some l, Some (remaining_path path)) ((pthread_rwlock_rdlock s)\<lparr>errno := 0\<rparr>)"
    using assms(1-3) by (intro get_layer_registered) (simp_all add: pthread_rwlock_rdlock_def)
  with assms(4,5) show ?thesis by (simp add: ref_inode_def)
qed

lemma ref_inode_done_missing:
  "ref_inode_done ((pthread_rwlock_rdlock s)\<lparr>errno := 0\<rparr>) None = Returns None (s\<lparr>errno := ENOENT\<rparr>)"
  by (simp add: ref_inode_done_def pthread_rwlock_rdlock_def pthread_rwlock_unlock_def)

lemma hit_cases:
  "hit s i = Undefined \<or> hit s i = Blocked s \<or>
   (\<exists>ino. inodes s i = Some ino \<and> \<not> lock ino \<and>
      hit s i = Blocked (s\<lparr>inodes := (inodes s)(i \<mapsto> ino\<lparr>lock := True, ref := ref ino + 1\<rparr>)\<rparr>))"
  by (simp add: hit_def split: option.splits)

lemma ref_inode_lookup_cases:
  assumes "ref_inode e s path False m = Some out"
  shows "out = Undefined \<or> out = Returns None (s\<lparr>errno := ENOENT\<rparr>) \<or>
         (\<exists>l i. indexed s l (remaining_path path) = Some i \<and>
                out = hit ((pthread_rwlock_rdlock s)\<lparr>errno := 0\<rparr>) i)"
proof -
  define s0 where "s0 = (pthread_rwlock_rdlock s)\<lparr>errno := 0\<rparr>"
  have lay: "layers s0 = layers s" by (simp add: s0_def pthread_rwlock_rdlock_def)
  consider "path = []" | "path \<noteq> []" "\<not> strdup_path e"
    | "path \<noteq> []" "strdup_path e" "layer_hash s (layer_segment path) = None"
    | l where "path \<noteq> []" "strdup_path e" "layer_hash s (layer_segment path) = Some l"
    by (cases "layer_hash s (layer_segment path)") auto
  then show ?thesis
  proof cases
    case 1
    with assms show ?thesis by (simp add: ref_inode_def get_layer_def)
  next
    case 2
    with assms show ?thesis
      by (auto simp: ref_inode_def get_layer_def ref_inode_done_def pthread_rwlock_rdlock_def
          pthread_rwlock_unlock_def ENOENT_def)
  next
    case 3
    with assms ref_inode_unregistered [of path s e False m] show ?thesis by simp
  next
    case 4
    show ?thesis
    proof (cases "length (remaining_path path) < PATH_MAX")
      case False
      with 4 assms show ?thesis
        by (simp add: ref_inode_def get_layer_def ht_get_def pthread_rwlock_rdlock_def)
    next
      case True
      note run = ref_inode_registered [OF 4 True refl, of False m, folded s0_def]
      show ?thesis
      proof (cases "walk s0 (remaining_path path) (dirname (remaining_path path)) (Some l) None l")
        case None
        with run assms show ?thesis by simp
      next
        case (Some w)
        from walk_shape [OF Some]
        consider "w = Undefined" | r q where "w = Returns (None, r, q) s0"
          | l' i where "indexed s0 l' (remaining_path path) = Some i" "w = hit s0 i"
          by blast
        then show ?thesis
        proof cases
          case 1
          with run Some assms show ?thesis by simp
        next
          case 2
          with run Some assms have "out = ref_inode_done s0 None" by simp
          then show ?thesis by (simp add: s0_def ref_inode_done_missing)
        next
          case 3
          from hit_cases [of s0 i] 3 run Some assms have "out = hit s0 i"
            by (auto simp: hit_def split: option.splits)
          moreover from 3 lay have "indexed s l' (remaining_path path) = Some i"
            by (simp add: indexed_def)
          ultimately show ?thesis unfolding s0_def by blast
        qed
      qed
    qed
  qed
qed

lemma ref_inode_found:
  assumes "path \<noteq> []" and "strdup_path e" and "layer_hash s (layer_segment path) = Some l"
    and "length (remaining_path path) < PATH_MAX"
    and "lineage s (Some l) ls"
    and "first_with s (remaining_path path) ls = Some (l', i)"
  shows "ref_inode e s path c m = Some (hit ((pthread_rwlock_rdlock s)\<lparr>errno := 0\<rparr>) i)"
proof -
  define s0 where "s0 = (pthread_rwlock_rdlock s)\<lparr>errno := 0\<rparr>"
  have lay: "layers s0 = layers s" by (simp add: s0_def pthread_rwlock_rdlock_def)
  from assms(5) have "lineage s0 (Some l) ls" by (simp add: lineage_same_layers [OF lay])
  from walk_lineage [OF this, of "remaining_path path" "dirname (remaining_path path)" None l]
    assms(6)
  have w: "walk s0 (remaining_path path) (dirname (remaining_path path)) (Some l) None l =
      Some (hit s0 i)"
    by (simp add: first_with_same_layers [OF lay])
  have "hit s0 i = (Undefined :: (addr option \<times> addr option \<times> addr) outcome) \<and>
        hit s0 i = (Undefined :: addr option outcome) \<or>
        (\<exists>b. hit s0 i = (Blocked b :: (addr option \<times> addr option \<times> addr) outcome) \<and>
             hit s0 i = (Blocked b :: addr option outcome))"
    by (simp add: hit_def split: option.splits)
  with ref_inode_registered [OF assms(1-4) w [unfolded s0_def], of c m]
  show ?thesis unfolding s0_def by auto
qed

lemma demo_lineage: "lineage demo (Some 101) [101, 100]" "lineage demo (Some 100) [100]"
  by (simp_all add: demo_def)

lemma ref_inode_found_free:
  assumes "path \<noteq> []" and "strdup_path e" and "layer_hash s (layer_segment path) = Some l"
    and "length (remaining_path path) < PATH_MAX"
    and "lineage s (Some l) ls"
    and "first_with s (remaining_path path) ls = Some (l', i)"
    and "inodes s i = Some ino" and "\<not> lock ino" and "ref ino < INT_MAX"
  shows "ref_inode e s path c m =
     Some (Blocked (s\<lparr>inodes := (inodes s)(i \<mapsto> ino\<lparr>lock := True, ref := ref ino + 1\<rparr>),
                      reaper_readers := Suc (reaper_readers s), errno := 0\<rparr>))"
  using ref_inode_found [OF assms(1-6), of c m] assms(7-9)
  by (simp add: hit_def pthread_rwlock_rdlock_def)

lemma demo_segments:
  "layer_segment ''/top/etc/hosts'' = ''top''" "remaining_path ''/top/etc/hosts'' = ''/etc/hosts''"
  "layer_segment ''/base/etc'' = ''base''" "remaining_path ''/base/etc'' = ''/etc''"
  "layer_segment ''/top/etc'' = ''top''" "remaining_path ''/top/etc'' = ''/etc''"
  by (simp_all add: layer_segment_def remaining_path_def)

lemma demo_indexed:
  "indexed demo 101 ''/etc/hosts'' = Some 7" "indexed demo 100 ''/etc/hosts'' = Some 3"
  "indexed demo 101 ''/etc'' = Some 6" "indexed demo 100 ''/etc'' = Some 2"
  by (simp_all add: indexed_def ht_get_def demo_def)

lemma demo_inodes:
  "inodes demo 7 = Some (entry ''hosts'' 101 (Holds 6) None)"
  "inodes demo 6 = Some (entry ''etc'' 101 (Holds 5) (Some 7))"
  "inodes demo 2 = Some (entry ''etc'' 100 (Holds 1) (Some 3))"
  "inodes demo 3 = Some ((entry ''hosts'' 100 (Holds 2) None)\<lparr>ref := 1, deleted := True\<rparr>)"
  by (simp_all add: demo_def)

lemma demo_quiet: "reaper_readers demo = 0" "errno demo = 0"
  by (simp_all add: demo_def)

lemma entry_fields: "lock (entry n l p c) = False" "ref (entry n l p c) = 0"
  by (simp_all add: entry_def)

subsection \<open>Lookups\<close>

text \<open>
  C1: when a layer and one of its ancestors both index the remaining path, \<^verbatim>\<open>ref_inode\<close>
  addressed to the descendant is to return the descendant's inode. Run on \<open>demo\<close>, where
  \<^verbatim>\<open>top\<close> has \<^verbatim>\<open>/etc/hosts\<close> as inode 7 and its parent \<^verbatim>\<open>base\<close> has it as inode 3, the walk
  stops at inode 7 and increments its count (inode 3 is untouched), and then the call
  does not return: it ends in the second \<^verbatim>\<open>pthread_mutex_lock\<close> of line 186, with the
  mutex of inode 7 locked and the read lock held.
\<close>

theorem shadowed_lookup_blocks:
  "indexed demo 101 ''/etc/hosts'' = Some 7 \<and> indexed demo 100 ''/etc/hosts'' = Some 3 \<and>
   ref_inode libc_fine demo ''/top/etc/hosts'' False 0 =
     Some (Blocked (demo\<lparr>inodes := (inodes demo)(7 \<mapsto> (entry ''hosts'' 101 (Holds 6) None)
                                                     \<lparr>lock := True, ref := 1\<rparr>),
                          reaper_readers := 1\<rparr>))"
proof -
  have "ref_inode libc_fine demo ''/top/etc/hosts'' False 0 =
      Some (Blocked (demo\<lparr>inodes := (inodes demo)(7 \<mapsto> (entry ''hosts'' 101 (Holds 6) None)
                               \<lparr>lock := True, ref := ref (entry ''hosts'' 101 (Holds 6) None) + 1\<rparr>),
                          reaper_readers := Suc (reaper_readers demo), errno := 0\<rparr>))"
  proof (rule ref_inode_found_free)
    show "lineage demo (Some 101) [101, 100]" by (rule demo_lineage)
    show "first_with demo (remaining_path ''/top/etc/hosts'') [101, 100] = Some (101, 7)"
      by (simp add: demo_segments demo_indexed)
    show "layer_hash demo (layer_segment ''/top/etc/hosts'') = Some 101"
      by (simp add: demo_segments demo_def)
  qed (simp_all add: demo_segments demo_inodes entry_fields PATH_MAX_def INT_MAX_def libc_fine_def)
  then show ?thesis
    by (simp add: demo_indexed demo_quiet entry_fields)
qed

text \<open>
  C4: for a path indexed in a registered layer, \<^verbatim>\<open>ref_inode\<close> with \<^verbatim>\<open>create\<close> false is to
  return that inode with its count one greater. Run on \<open>demo\<close> for \<^verbatim>\<open>/base/etc\<close>, indexed in
  \<^verbatim>\<open>base\<close> as inode 2 with count 0: the count becomes 1 and the count of no other inode
  changes, but the call does not return the inode: it ends in the second
  \<^verbatim>\<open>pthread_mutex_lock\<close> of line 186.
\<close>

theorem indexed_lookup_blocks:
  "indexed demo 100 ''/etc'' = Some 2 \<and> layer_hash demo ''base'' = Some 100 \<and>
   ref_inode libc_fine demo ''/base/etc'' False 0 =
     Some (Blocked (demo\<lparr>inodes := (inodes demo)(2 \<mapsto> (entry ''etc'' 100 (Holds 1) (Some 3))
                                                     \<lparr>lock := True, ref := 1\<rparr>),
                          reaper_readers := 1\<rparr>))"
proof -
  have "ref_inode libc_fine demo ''/base/etc'' False 0 =
      Some (Blocked (demo\<lparr>inodes := (inodes demo)(2 \<mapsto> (entry ''etc'' 100 (Holds 1) (Some 3))
                               \<lparr>lock := True, ref := ref (entry ''etc'' 100 (Holds 1) (Some 3)) + 1\<rparr>),
                          reaper_readers := Suc (reaper_readers demo), errno := 0\<rparr>))"
  proof (rule ref_inode_found_free)
    show "lineage demo (Some 100) [100]" by (rule demo_lineage)
    show "first_with demo (remaining_path ''/base/etc'') [100] = Some (100, 2)"
      by (simp add: demo_segments demo_indexed)
    show "layer_hash demo (layer_segment ''/base/etc'') = Some 100"
      by (simp add: demo_segments demo_def)
  qed (simp_all add: demo_segments demo_inodes entry_fields PATH_MAX_def INT_MAX_def libc_fine_def)
  moreover have "layer_hash demo ''base'' = Some 100" by (simp add: demo_def)
  ultimately show ?thesis
    by (simp add: demo_indexed demo_quiet entry_fields)
qed

text \<open>
  C10: a lookup (\<^verbatim>\<open>ref_inode\<close> with \<^verbatim>\<open>create\<close> false) is to change no field of an inode but
  the reference count of the inode it returns. Run on \<open>demo\<close> for \<^verbatim>\<open>/top/etc\<close>, indexed in
  \<^verbatim>\<open>top\<close> as inode 6, whose mutex is free: besides the count, which becomes 1, the field
  \<^verbatim>\<open>lock\<close> of inode 6 has changed, since line 186 locks the mutex again where it should
  unlock it; it stays locked, and the call does not return the inode.
\<close>

theorem lookup_leaves_mutex_locked:
  "inodes demo 6 = Some (entry ''etc'' 101 (Holds 5) (Some 7)) \<and>
   lock (entry ''etc'' 101 (Holds 5) (Some 7)) = False \<and>
   ref_inode libc_fine demo ''/top/etc'' False 0 =
     Some (Blocked (demo\<lparr>inodes := (inodes demo)(6 \<mapsto> (entry ''etc'' 101 (Holds 5) (Some 7))
                                                     \<lparr>lock := True, ref := 1\<rparr>),
                          reaper_readers := 1\<rparr>))"
proof -
  have "ref_inode libc_fine demo ''/top/etc'' False 0 =
      Some (Blocked (demo\<lparr>inodes := (inodes demo)(6 \<mapsto> (entry ''etc'' 101 (Holds 5) (Some 7))
                               \<lparr>lock := True, ref := ref (entry ''etc'' 101 (Holds 5) (Some 7)) + 1\<rparr>),
                          reaper_readers := Suc (reaper_readers demo), errno := 0\<rparr>))"
  proof (rule ref_inode_found_free)
    show "lineage demo (Some 101) [101, 100]" by (rule demo_lineage)
    show "first_with demo (remaining_path ''/top/etc'') [101, 100] = Some (101, 6)"
      by (simp add: demo_segments demo_indexed)
    show "layer_hash demo (layer_segment ''/top/etc'') = Some 101"
      by (simp add: demo_segments demo_def)
  qed (simp_all add: demo_segments demo_inodes entry_fields PATH_MAX_def INT_MAX_def libc_fine_def)
  then show ?thesis
    by (simp add: demo_inodes demo_quiet entry_fields)
qed

text \<open>
  What every lookup leaves alone, however it ends: the registry, every layer with its
  index, and every inode but at most one, which a layer has in its index for the
  remaining path and whose mutex was free. Of that inode the count has become greater by
  one and the mutex has been locked; its other fields are as before. A lookup that
  returns null has changed no inode.
\<close>

lemma ref_inode_lookup_changes:
  assumes "ref_inode e s path False m = Some out" and "reached out = Some s'"
  shows "layer_hash s' = layer_hash s \<and> layers s' = layers s \<and>
         (inodes s' = inodes s \<or>
          (\<exists>l i ino. indexed s l (remaining_path path) = Some i \<and> inodes s i = Some ino \<and>
                     \<not> lock ino \<and>
                     inodes s' = (inodes s)(i \<mapsto> ino\<lparr>lock := True, ref := ref ino + 1\<rparr>))) \<and>
         (out = Returns None s' \<longrightarrow> inodes s' = inodes s)"
proof -
  define s0 where "s0 = (pthread_rwlock_rdlock s)\<lparr>errno := 0\<rparr>"
  have s0: "layer_hash s0 = layer_hash s" "layers s0 = layers s" "inodes s0 = inodes s"
    by (simp_all add: s0_def pthread_rwlock_rdlock_def)
  from ref_inode_lookup_cases [OF assms(1)]
  consider "out = Undefined" | "out = Returns None (s\<lparr>errno := ENOENT\<rparr>)"
    | l i where "indexed s l (remaining_path path) = Some i" "out = hit s0 i"
    unfolding s0_def by blast
  then show ?thesis
  proof cases
    case 1
    with assms(2) show ?thesis by (simp add: reached_def)
  next
    case 2
    with assms(2) show ?thesis by (auto simp: reached_def)
  next
    case 3
    from hit_cases [of s0 i] 3(2)
    consider "out = Undefined" | "out = Blocked s0"
      | ino where "inodes s0 i = Some ino" "\<not> lock ino"
          "out = Blocked (s0\<lparr>inodes := (inodes s0)(i \<mapsto> ino\<lparr>lock := True, ref := ref ino + 1\<rparr>)\<rparr>)"
      by auto
    then show ?thesis
    proof cases
      case 1
      with assms(2) show ?thesis by (simp add: reached_def)
    next
      case 2
      with assms(2) s0 show ?thesis by (auto simp: reached_def)
    next
      case inner: 3
      with assms(2)
      have "s' = s0\<lparr>inodes := (inodes s0)(i \<mapsto> ino\<lparr>lock := True, ref := ref ino + 1\<rparr>)\<rparr>"
        by (simp add: reached_def)
      with 3 inner s0 show ?thesis by auto
    qed
  qed
qed

subsection \<open>Releasing a reference\<close>

text \<open>
  C2: a release that brings the count of a deleted inode to 0 is to reclaim the inode.
  Run on \<open>demo\<close> for inode 3, which is marked deleted and has the count 1:
  \<^verbatim>\<open>deref_inode\<close> brings the count to 0 and ends in the second \<^verbatim>\<open>pthread_mutex_lock\<close> of
  line 233. The inode is still in the store, still in the index of its layer under
  \<^verbatim>\<open>/etc/hosts\<close>, and still the first child of its parent, inode 2.
\<close>

theorem deref_keeps_deleted_inode:
  "inodes demo 3 = Some ((entry ''hosts'' 100 (Holds 2) None)\<lparr>ref := 1, deleted := True\<rparr>) \<and>
   deref_inode demo 3 =
     Blocked (demo\<lparr>inodes := (inodes demo)(3 \<mapsto> (entry ''hosts'' 100 (Holds 2) None)
                                               \<lparr>ref := 0, deleted := True, lock := True\<rparr>)\<rparr>) \<and>
   indexed (demo\<lparr>inodes := (inodes demo)(3 \<mapsto> (entry ''hosts'' 100 (Holds 2) None)
                                             \<lparr>ref := 0, deleted := True, lock := True\<rparr>)\<rparr>)
     100 ''/etc/hosts'' = Some 3 \<and>
   map_option child
     (inodes (demo\<lparr>inodes := (inodes demo)(3 \<mapsto> (entry ''hosts'' 100 (Holds 2) None)
                                              \<lparr>ref := 0, deleted := True, lock := True\<rparr>)\<rparr>) 2) =
     Some (Some 3)"
  by (simp add: deref_inode_def after_def with_inode_def pthread_mutex_lock_def set_inode_def
      demo_inodes entry_def indexed_def INT_MIN_def)
    (simp add: demo_def ht_get_def entry_def)

text \<open>
  C8, as stated: a release that takes the count below zero is detected and flagged, not
  carried out. It is carried out: inode 2 of \<open>demo\<close> has the count 0, and \<^verbatim>\<open>deref_inode\<close>
  stores the count -1, ending as every other release does.
\<close>

theorem deref_below_zero:
  "map_option ref (inodes demo 2) = Some 0 \<and>
   deref_inode demo 2 =
     Blocked (demo\<lparr>inodes := (inodes demo)(2 \<mapsto> (entry ''etc'' 100 (Holds 1) (Some 3))
                                               \<lparr>lock := True, ref := - 1\<rparr>)\<rparr>)"
  by (simp add: deref_inode_def after_def with_inode_def pthread_mutex_lock_def set_inode_def
      demo_inodes entry_def INT_MIN_def)

text \<open>
  C8, amended: \<^verbatim>\<open>deref_inode\<close> makes no test of the count. On an inode whose mutex is free
  and whose count is above \<open>INT_MIN\<close>, the least \<^verbatim>\<open>int\<close>, it decrements the count by exactly
  one, whatever the count is, so also from 0 to -1, and nothing is detected or flagged.
  The only other thing it changes is the mutex of that inode, which it locks and leaves
  locked: the call does not return, it ends in the second \<^verbatim>\<open>pthread_mutex_lock\<close> of line
  233. No other field of the inode, no other inode, no layer, no registry entry and not
  \<^verbatim>\<open>errno\<close> has changed: the theorem gives the whole state the call ends in.
\<close>

theorem deref_inode_decrements:
  assumes "inodes s i = Some ino" and "\<not> lock ino" and "INT_MIN < ref ino"
  shows "deref_inode s i =
     Blocked (s\<lparr>inodes := (inodes s)(i \<mapsto> ino\<lparr>lock := True, ref := ref ino - 1\<rparr>)\<rparr>)"
  using assms
  by (simp add: deref_inode_def after_def with_inode_def pthread_mutex_lock_def set_inode_def)

theorem deref_inode_decrements_witness:
  "inodes demo 2 = Some (entry ''etc'' 100 (Holds 1) (Some 3)) \<and>
   \<not> lock (entry ''etc'' 100 (Holds 1) (Some 3)) \<and>
   INT_MIN < ref (entry ''etc'' 100 (Holds 1) (Some 3)) \<and>
   ref (entry ''etc'' 100 (Holds 1) (Some 3)) = 0 \<and>
   deref_inode demo 2 =
     Blocked (demo\<lparr>inodes := (inodes demo)(2 \<mapsto> (entry ''etc'' 100 (Holds 1) (Some 3))
                                               \<lparr>lock := True, ref := 0 - 1\<rparr>)\<rparr>)"
proof -
  have a: "inodes demo 2 = Some (entry ''etc'' 100 (Holds 1) (Some 3))" by (rule demo_inodes)
  have b: "\<not> lock (entry ''etc'' 100 (Holds 1) (Some 3))" by (simp add: entry_fields)
  have c: "INT_MIN < ref (entry ''etc'' 100 (Holds 1) (Some 3))"
    by (simp add: entry_fields INT_MIN_def)
  from deref_inode_decrements [OF a b c] a b c show ?thesis by (simp add: entry_fields)
qed

subsection \<open>Facts about failing and creating calls\<close>

lemma ref_inode_strdup_fails:
  assumes "path \<noteq> []" and "\<not> strdup_path e"
  shows "ref_inode e s path c m = Some (Returns None (s\<lparr>errno := ENOENT\<rparr>))"
  using assms
  by (simp add: ref_inode_def get_layer_def ref_inode_done_def pthread_rwlock_rdlock_def
      pthread_rwlock_unlock_def ENOENT_def)

lemma walk_missing:
  assumes "lineage s (Some l) ls" and "first_with s p ls = None"
  shows "walk ((pthread_rwlock_rdlock s)\<lparr>errno := 0\<rparr>) p d (Some l) None l =
     Some (Returns (None, map_option snd (first_with s d ls),
                    (case first_with s d ls of Some (pl, i) \<Rightarrow> pl | None \<Rightarrow> last ls))
             ((pthread_rwlock_rdlock s)\<lparr>errno := 0\<rparr>))"
proof -
  define s0 where "s0 = (pthread_rwlock_rdlock s)\<lparr>errno := 0\<rparr>"
  have lay: "layers s0 = layers s" by (simp add: s0_def pthread_rwlock_rdlock_def)
  from assms(1) have ne: "ls \<noteq> []" by (cases ls) simp_all
  from assms(1) have "lineage s0 (Some l) ls" by (simp add: lineage_same_layers [OF lay])
  from walk_lineage [OF this, of p d None l] assms(2) ne
  show ?thesis unfolding s0_def [symmetric]
    by (simp add: first_with_same_layers [OF lay])
qed

lemma ref_inode_missing:
  assumes "path \<noteq> []" and "strdup_path e" and "layer_hash s (layer_segment path) = Some l"
    and "length (remaining_path path) < PATH_MAX"
    and "lineage s (Some l) ls"
    and "first_with s (remaining_path path) ls = None"
    and "\<not> c \<or> first_with s (dirname (remaining_path path)) ls = None"
  shows "ref_inode e s path c m = Some (Returns None (s\<lparr>errno := ENOENT\<rparr>))"
  using ref_inode_registered [OF assms(1-4) walk_missing [OF assms(5,6)], of c m] assms(7)
  by (auto simp: ref_inode_done_missing)

lemma ref_inode_create:
  assumes "path \<noteq> []" and "strdup_path e" and "layer_hash s (layer_segment path) = Some l"
    and "length (remaining_path path) < PATH_MAX"
    and "lineage s (Some l) ls"
    and "first_with s (remaining_path path) ls = None"
    and "first_with s (dirname (remaining_path path)) ls = Some (pl, par)"
  shows "ref_inode e s path True m =
     Some (after (alloc_inode e ((pthread_rwlock_rdlock s)\<lparr>errno := 0\<rparr>) (Some par)
                    (remaining_path path) m pl)
             (\<lambda>r s3. ref_inode_done s3 r))"
  using ref_inode_registered [OF assms(1-4) walk_missing [OF assms(5,6)], of True m] assms(7)
  by simp

lemma alloc_inode_never_null:
  assumes "malloc_inode e \<noteq> None" and "strdup_name e" and "strdup_base e"
    and "tmpfile_stream e \<noteq> None"
  shows "alloc_inode e s par n m l \<noteq> Returns None s'"
  using assms
  by (auto simp: alloc_inode_def after_def with_inode_def with_layer_def set_inode_def
      set_layer_def pthread_mutex_init_def pthread_mutex_lock_def pthread_mutex_unlock_def
      Let_def split: option.splits if_splits)

lemma demo_nope:
  "layer_segment ''/none/x'' = ''none''" "remaining_path ''/none/x'' = ''/x''"
  "layer_segment ''/top/nope'' = ''top''" "remaining_path ''/top/nope'' = ''/nope''"
  "layer_segment ''/top/nope/x'' = ''top''" "remaining_path ''/top/nope/x'' = ''/nope/x''"
  "dirname ''/nope/x'' = ''/nope''" "dirname ''/nope'' = ''/''"
  by (simp_all add: layer_segment_def remaining_path_def dirname_def strip_slashes_def)

lemma demo_registry:
  "layer_hash demo ''top'' = Some 101" "layer_hash demo ''base'' = Some 100"
  "layer_hash demo ''none'' = None"
  by (simp_all add: demo_def)

lemma demo_nope_indexed:
  "indexed demo 101 ''/nope'' = None" "indexed demo 100 ''/nope'' = None"
  "indexed demo 101 ''/nope/x'' = None" "indexed demo 100 ''/nope/x'' = None"
  by (simp_all add: indexed_def ht_get_def demo_def)

lemma basename_keeps:
  "filename = [] \<or> last filename \<noteq> CHR ''/'' \<Longrightarrow> snd (basename filename) = filename"
  by (auto simp: basename_def)

lemma alloc_inode_linked:
  assumes "malloc_inode e = Some a" and "strdup_name e" and "strdup_base e"
    and "m AND S_IFREG = 0 \<or> tmpfile_stream e \<noteq> None"
    and "inodes s a = None" and "inodes s par = Some pino" and "\<not> lock pino"
    and "layers s pl = Some ly"
  shows "\<exists>s' nino. alloc_inode e s (Some par) nm m pl = Returns (Some a) s' \<and>
      layers s' = (layers s)(pl \<mapsto> ly\<lparr>children := (children ly)(snd (basename nm) \<mapsto> a)\<rparr>) \<and>
      layer_hash s' = layer_hash s \<and>
      inodes s' = (inodes s)(par \<mapsto> pino\<lparr>child := Some a\<rparr>, a \<mapsto> nino) \<and>
      ref nino = 1 \<and> deleted nino = False \<and> name nino = fst (basename nm) \<and> mode nino = m \<and>
      layer nino = pl \<and> parent nino = Holds par \<and> child nino = None \<and>
      next_sibling nino = None \<and> \<not> lock nino \<and>
      errno s' = errno s \<and> reaper_readers s' = reaper_readers s"
proof -
  from assms(5,6) have ne: "a \<noteq> par" by auto
  from assms(7) have unlocked:
    "pino\<lparr>lock := False, child := Some a\<rparr> = pino\<lparr>child := Some a\<rparr>"
    "pino\<lparr>child := Some a, lock := False\<rparr> = pino\<lparr>child := Some a\<rparr>"
    by (cases pino, simp)+
  from ne assms show ?thesis
    by (auto simp: alloc_inode_def after_def with_inode_def with_layer_def set_inode_def
        set_layer_def pthread_mutex_init_def pthread_mutex_lock_def pthread_mutex_unlock_def
        ht_set_def Let_def unlocked split: option.splits)
qed

lemma ref_inode_creates:
  assumes "path \<noteq> []" and "length (remaining_path path) < PATH_MAX"
    and "layer_hash s (layer_segment path) = Some l"
    and "lineage s (Some l) (pre @ anc # post)"
    and "\<forall>x\<in>set (pre @ anc # post). indexed s x (remaining_path path) = None"
    and "\<forall>x\<in>set pre. indexed s x (dirname (remaining_path path)) = None"
    and "indexed s anc (dirname (remaining_path path)) = Some par"
    and "inodes s par = Some pino" and "\<not> lock pino"
    and "strdup_path e" and "malloc_inode e = Some a" and "inodes s a = None"
    and "strdup_name e" and "strdup_base e"
    and "m AND S_IFREG = 0 \<or> tmpfile_stream e \<noteq> None"
  shows "\<exists>s' nino ly. ref_inode e s path True m = Some (Returns (Some a) s') \<and>
      layers s anc = Some ly \<and>
      layers s' = (layers s)(anc \<mapsto> ly\<lparr>children := (children ly)(snd (basename (remaining_path path)) \<mapsto> a)\<rparr>) \<and>
      layer_hash s' = layer_hash s \<and>
      inodes s' = (inodes s)(par \<mapsto> pino\<lparr>child := Some a\<rparr>, a \<mapsto> nino) \<and>
      ref nino = 1 \<and> deleted nino = False \<and> mode nino = m \<and>
      layer nino = anc \<and> parent nino = Holds par \<and> \<not> lock nino \<and>
      errno s' = 0 \<and> reaper_readers s' = reaper_readers s"
proof -
  let ?rp = "remaining_path path"
  define s0 where "s0 = (pthread_rwlock_rdlock s)\<lparr>errno := 0\<rparr>"
  have s0: "layers s0 = layers s" "inodes s0 = inodes s"
    "layer_hash s0 = layer_hash s" "errno s0 = 0" "reaper_readers s0 = Suc (reaper_readers s)"
    by (simp_all add: s0_def pthread_rwlock_rdlock_def)
  from assms(5) have miss: "first_with s ?rp (pre @ anc # post) = None"
    by (simp only: first_with_None)
  from assms(6) have "first_with s (dirname ?rp) pre = None" by (simp only: first_with_None)
  with assms(7) have dir: "first_with s (dirname ?rp) (pre @ anc # post) = Some (anc, par)"
    by (simp add: first_with_append)
  from assms(7) obtain ly where ly: "layers s anc = Some ly"
    by (auto simp: indexed_def split: option.splits)
  from ref_inode_create [OF assms(1) assms(10) assms(3) assms(2) assms(4) miss dir, of m]
  have run: "ref_inode e s path True m =
      Some (after (alloc_inode e s0 (Some par) ?rp m anc) (\<lambda>r s3. ref_inode_done s3 r))"
    by (simp add: s0_def)
  from alloc_inode_linked [of e a m s0 par pino anc ly ?rp] assms s0 ly
  obtain s3 nino where alloc: "alloc_inode e s0 (Some par) ?rp m anc = Returns (Some a) s3"
    and s3: "layers s3 = (layers s)(anc \<mapsto> ly\<lparr>children := (children ly)(snd (basename ?rp) \<mapsto> a)\<rparr>)"
      "layer_hash s3 = layer_hash s"
      "inodes s3 = (inodes s)(par \<mapsto> pino\<lparr>child := Some a\<rparr>, a \<mapsto> nino)"
      "errno s3 = 0" "reaper_readers s3 = Suc (reaper_readers s)"
    and nino: "ref nino = 1" "deleted nino = False" "mode nino = m" "layer nino = anc"
      "parent nino = Holds par" "\<not> lock nino"
    by auto
  from run alloc have "ref_inode e s path True m = Some (Returns (Some a) (pthread_rwlock_unlock s3))"
    by (simp add: after_def ref_inode_done_def)
  with s3 nino ly show ?thesis
    by (auto simp: pthread_rwlock_unlock_def)
qed

lemma demo_var:
  "layer_segment ''/top/var/log'' = ''top''" "remaining_path ''/top/var/log'' = ''/var/log''"
  "layer_segment ''/top/var/log/'' = ''top''" "remaining_path ''/top/var/log/'' = ''/var/log/''"
  "dirname ''/var/log'' = ''/var''" "dirname ''/var/log/'' = ''/var''"
  "snd (basename ''/var/log/'') = ''/var/log''"
  by (simp_all add: layer_segment_def remaining_path_def dirname_def basename_def strip_slashes_def)

lemma demo_var_indexed:
  "indexed demo 101 ''/var/log'' = None" "indexed demo 100 ''/var/log'' = None"
  "indexed demo 101 ''/var/log/'' = None" "indexed demo 100 ''/var/log/'' = None"
  "indexed demo 101 ''/var'' = None" "indexed demo 100 ''/var'' = Some 4"
  by (simp_all add: indexed_def ht_get_def demo_def)

lemma demo_var_inode: "inodes demo 4 = Some (entry ''var'' 100 (Holds 1) None)" "inodes demo 8 = None"
  by (simp_all add: demo_def)

lemma libc_fine_answers:
  "strdup_path libc_fine" "malloc_inode libc_fine = Some 8" "strdup_name libc_fine"
  "strdup_base libc_fine" "tmpfile_stream libc_fine = Some 3"
  by (simp_all add: libc_fine_def)

lemma base_paths:
  "layer_segment ''/base/etc/conf'' = ''base''" "remaining_path ''/base/etc/conf'' = ''/etc/conf''"
  "layer_segment ''/base/conf'' = ''base''" "remaining_path ''/base/conf'' = ''/conf''"
  "dirname ''/etc/conf'' = ''/etc''" "dirname ''/conf'' = ''/''"
  "snd (basename ''/conf'') = ''/conf''"
  by (simp_all add: layer_segment_def remaining_path_def dirname_def basename_def strip_slashes_def)

lemma base_engine_facts:
  "layer_hash base_engine ''base'' = Some 102" "lineage base_engine (Some 102) [102]"
  "indexed base_engine 102 ''/etc/conf'' = None" "indexed base_engine 102 ''/etc'' = None"
  "indexed base_engine 102 ''/conf'' = None" "indexed base_engine 102 ''/'' = Some 8"
  "inodes base_engine 8 = Some base_root" "inodes base_engine 9 = None"
  "reaper_readers base_engine = 0"
  by (simp_all add: base_engine_def indexed_def ht_get_def)

lemma base_root_fields: "\<not> lock base_root" "ref base_root = 0"
  by (simp_all add: base_root_def)

lemma libc_next_answers:
  "strdup_path libc_next" "malloc_inode libc_next = Some 9" "strdup_name libc_next"
  "strdup_base libc_next" "tmpfile_stream libc_next = Some 3"
  by (simp_all add: libc_next_def libc_fine_def)

lemma create_base_blocks:
  "create_layer libc_fine fresh ''base'' Null_ptr =
     Blocked (base_engine\<lparr>layer_hash := Map.empty, inodes := [8 \<mapsto> base_root\<lparr>lock := True\<rparr>]\<rparr>)"
  by (simp add: create_layer_def ht_get_def ht_create_def ht_set_def root_mode alloc_inode_def
      after_def with_inode_def with_layer_def set_inode_def set_layer_def deref_inode_def
      pthread_mutex_init_def pthread_mutex_lock_def basename_def strip_slashes_def Let_def
      fresh_def libc_fine_def base_engine_def base_root_def INT_MIN_def)

lemma no_etc_in_base:
  "ref_inode libc_next base_engine ''/base/etc/conf'' True regular_file_mode =
     Some (Returns None (base_engine\<lparr>errno := ENOENT\<rparr>))"
proof (rule ref_inode_missing)
  show "lineage base_engine (Some 102) [102]" by (rule base_engine_facts)
  show "first_with base_engine (remaining_path ''/base/etc/conf'') [102] = None"
    by (simp add: base_paths base_engine_facts)
  show "\<not> True \<or> first_with base_engine (dirname (remaining_path ''/base/etc/conf'')) [102] = None"
    by (simp add: base_paths base_engine_facts)
qed (simp_all add: base_paths base_engine_facts libc_next_answers PATH_MAX_def)

subsection \<open>Not found\<close>

text \<open>
  C5, as stated: \<^verbatim>\<open>ref_inode\<close> returns null with \<^verbatim>\<open>ENOENT\<close> in exactly three cases (the
  layer id is not registered; the path is in no index of the chain and \<^verbatim>\<open>create\<close> is
  false; the path and its parent directory are in no index of the chain and \<^verbatim>\<open>create\<close>
  is true). There is one more: \<^verbatim>\<open>get_layer\<close> returns no layer, and sets \<^verbatim>\<open>ENOENT\<close>, when its
  \<^verbatim>\<open>strdup\<close> fails (lines 124-128, 146-148). On \<open>demo\<close>, \<^verbatim>\<open>top\<close> is registered and has
  \<^verbatim>\<open>/etc/hosts\<close> in its index, and the lookup of \<^verbatim>\<open>/top/etc/hosts\<close> still ends with null
  and \<^verbatim>\<open>ENOENT\<close>.
\<close>

theorem not_found_when_strdup_fails:
  "layer_hash demo (layer_segment ''/top/etc/hosts'') = Some 101 \<and>
   indexed demo 101 (remaining_path ''/top/etc/hosts'') = Some 7 \<and>
   ref_inode (libc_fine\<lparr>strdup_path := False\<rparr>) demo ''/top/etc/hosts'' False 0 =
     Some (Returns None (demo\<lparr>errno := ENOENT\<rparr>))"
  by (simp add: demo_segments demo_registry demo_indexed ref_inode_strdup_fails libc_fine_def)

text \<open>
  C5, amended: on a well-formed store (the parent links from the addressed layer end
  after the layers \<open>ls\<close>) and a path shorter than \<^verbatim>\<open>PATH_MAX\<close>, \<^verbatim>\<open>ref_inode\<close> returns null
  with \<^verbatim>\<open>errno = ENOENT\<close>, and changes nothing else, in each of the three cases: the layer
  id is not registered; or no layer of the chain has the remaining path and \<^verbatim>\<open>create\<close>
  is false; or no layer of the chain has the remaining path or its parent directory and
  \<^verbatim>\<open>create\<close> is true. And when all allocations of the C library succeed, it returns
  null in no other case.
\<close>

theorem ref_inode_not_found:
  assumes "path \<noteq> []" and "length (remaining_path path) < PATH_MAX"
    and "lineage s (layer_hash s (layer_segment path)) ls"
  shows "((layer_hash s (layer_segment path) = None \<or>
           ((\<forall>x\<in>set ls. indexed s x (remaining_path path) = None) \<and>
            (\<not> create \<or> (\<forall>x\<in>set ls. indexed s x (dirname (remaining_path path)) = None))))
          \<longrightarrow> ref_inode e s path create m = Some (Returns None (s\<lparr>errno := ENOENT\<rparr>))) \<and>
         (libc_succeeds e \<longrightarrow> (\<exists>s'. ref_inode e s path create m = Some (Returns None s')) \<longrightarrow>
          (layer_hash s (layer_segment path) = None \<or>
           ((\<forall>x\<in>set ls. indexed s x (remaining_path path) = None) \<and>
            (\<not> create \<or> (\<forall>x\<in>set ls. indexed s x (dirname (remaining_path path)) = None)))))"
proof (cases "layer_hash s (layer_segment path)")
  case None
  with assms(1) show ?thesis by (simp add: ref_inode_unregistered)
next
  case (Some l)
  with assms(3) have chain: "lineage s (Some l) ls" by simp
  let ?rp = "remaining_path path"
  have fwd: "ref_inode e s path create m = Some (Returns None (s\<lparr>errno := ENOENT\<rparr>))"
    if miss: "first_with s ?rp ls = None"
      and nodir: "\<not> create \<or> first_with s (dirname ?rp) ls = None"
  proof (cases "strdup_path e")
    case True
    from ref_inode_missing [OF assms(1) True Some assms(2) chain miss nodir] show ?thesis .
  next
    case False
    with assms(1) show ?thesis by (rule ref_inode_strdup_fails)
  qed
  have bwd: "first_with s ?rp ls = None \<and> (\<not> create \<or> first_with s (dirname ?rp) ls = None)"
    if ok: "libc_succeeds e" and ret: "ref_inode e s path create m = Some (Returns None s')" for s'
  proof -
    from ok have sp: "strdup_path e" by (simp add: libc_succeeds_def)
    have miss: "first_with s ?rp ls = None"
    proof (cases "first_with s ?rp ls")
      case None
      then show ?thesis .
    next
      case (Some hit_at)
      obtain l' i where "hit_at = (l', i)" by (cases hit_at)
      with Some have "first_with s ?rp ls = Some (l', i)" by simp
      from ref_inode_found [OF assms(1) sp \<open>layer_hash s (layer_segment path) = Some l\<close>
          assms(2) chain this, of create m] ret
      show ?thesis by (simp add: hit_def split: option.splits if_splits)
    qed
    moreover have "first_with s (dirname ?rp) ls = None" if c: create
    proof (cases "first_with s (dirname ?rp) ls")
      case None
      then show ?thesis .
    next
      case (Some dir_at)
      obtain pl par where "dir_at = (pl, par)" by (cases dir_at)
      with Some have "first_with s (dirname ?rp) ls = Some (pl, par)" by simp
      from ref_inode_create [OF assms(1) sp \<open>layer_hash s (layer_segment path) = Some l\<close>
          assms(2) chain miss this, of m] ret c
      have "after (alloc_inode e ((pthread_rwlock_rdlock s)\<lparr>errno := 0\<rparr>) (Some par) ?rp m pl)
              (\<lambda>r s3. ref_inode_done s3 r) = Returns None s'"
        by simp
      moreover from ok have "alloc_inode e ((pthread_rwlock_rdlock s)\<lparr>errno := 0\<rparr>) (Some par) ?rp m pl
          \<noteq> Returns None s3" for s3
        by (intro alloc_inode_never_null) (simp_all add: libc_succeeds_def)
      ultimately show ?thesis
        by (auto simp: after_def ref_inode_done_def Let_def split: outcome.splits)
    qed
    ultimately show ?thesis by auto
  qed
  from Some fwd bwd show ?thesis by (simp add: first_with_None) blast
qed

theorem ref_inode_not_found_witness:
  "ref_inode libc_fine demo ''/none/x'' True 0 = Some (Returns None (demo\<lparr>errno := ENOENT\<rparr>)) \<and>
   ref_inode libc_fine demo ''/top/nope'' False 0 = Some (Returns None (demo\<lparr>errno := ENOENT\<rparr>)) \<and>
   ref_inode libc_fine demo ''/top/nope/x'' True 0 = Some (Returns None (demo\<lparr>errno := ENOENT\<rparr>)) \<and>
   libc_succeeds libc_fine \<and>
   indexed demo 101 ''/nope/x'' = None \<and> indexed demo 100 ''/nope/x'' = None \<and>
   indexed demo 101 ''/nope'' = None \<and> indexed demo 100 ''/nope'' = None"
proof -
  have ok: "libc_succeeds libc_fine" by (simp add: libc_succeeds_def libc_fine_def)
  have none: "lineage demo (layer_hash demo (layer_segment ''/none/x'')) []"
    by (simp add: demo_nope demo_registry)
  have top1: "lineage demo (layer_hash demo (layer_segment ''/top/nope'')) [101, 100]"
    by (simp only: demo_nope demo_registry demo_lineage)
  have top2: "lineage demo (layer_hash demo (layer_segment ''/top/nope/x'')) [101, 100]"
    by (simp only: demo_nope demo_registry demo_lineage)
  have a: "ref_inode libc_fine demo ''/none/x'' True 0 = Some (Returns None (demo\<lparr>errno := ENOENT\<rparr>))"
    using ref_inode_not_found [OF _ _ none, of True libc_fine 0]
    by (simp add: demo_nope demo_registry PATH_MAX_def)
  have b: "ref_inode libc_fine demo ''/top/nope'' False 0 = Some (Returns None (demo\<lparr>errno := ENOENT\<rparr>))"
    using ref_inode_not_found [OF _ _ top1, of False libc_fine 0]
    by (simp add: demo_nope demo_registry demo_nope_indexed PATH_MAX_def)
  have c: "ref_inode libc_fine demo ''/top/nope/x'' True 0 = Some (Returns None (demo\<lparr>errno := ENOENT\<rparr>))"
    using ref_inode_not_found [OF _ _ top2, of True libc_fine 0]
    by (simp add: demo_nope demo_registry demo_nope_indexed PATH_MAX_def)
  have "indexed demo 101 ''/nope/x'' = None \<and> indexed demo 100 ''/nope/x'' = None \<and>
        indexed demo 101 ''/nope'' = None \<and> indexed demo 100 ''/nope'' = None"
    using ref_inode_not_found [OF _ _ top2, of True libc_fine 0] ok c
    by (simp add: demo_nope demo_registry PATH_MAX_def)
  with a b c ok show ?thesis by simp
qed

subsection \<open>Creation\<close>

text \<open>
  C3: for a path that is in no index of the chain and whose parent directory is indexed
  only in a proper ancestor, \<^verbatim>\<open>ref_inode\<close> with \<^verbatim>\<open>create\<close> true is to index the new inode
  under the full remaining path in that ancestor. For a remaining path that ends in a
  slash it does not: \<^verbatim>\<open>alloc_inode\<close> makes the copy \<^verbatim>\<open>dupname\<close> (line 42) and then passes
  \<^verbatim>\<open>name\<close> itself to \<^verbatim>\<open>basename\<close> (line 52), which cuts the trailing slash off in place, and
  line 91 uses \<^verbatim>\<open>name\<close> as the key. On \<open>demo\<close>, \<^verbatim>\<open>/var/log/\<close> is in no index and its parent
  directory \<^verbatim>\<open>/var\<close> only in the index of \<^verbatim>\<open>base\<close>; the call on \<^verbatim>\<open>/top/var/log/\<close> creates inode
  8 in \<^verbatim>\<open>base\<close>, indexed under \<^verbatim>\<open>/var/log\<close>, and \<^verbatim>\<open>/var/log/\<close> is still in no index.
\<close>

theorem trailing_slash_indexed_without_it:
  "indexed demo 101 ''/var/log/'' = None \<and> indexed demo 100 ''/var/log/'' = None \<and>
   dirname ''/var/log/'' = ''/var'' \<and>
   indexed demo 101 ''/var'' = None \<and> indexed demo 100 ''/var'' = Some 4 \<and>
   (case ref_inode libc_fine demo ''/top/var/log/'' True 0 of
      Some (Returns r s') \<Rightarrow>
        r = Some 8 \<and> indexed s' 100 ''/var/log/'' = None \<and> indexed s' 100 ''/var/log'' = Some 8
    | _ \<Rightarrow> False)"
proof -
  have chain: "lineage demo (Some 101) ([101] @ 100 # [])" by (simp add: demo_def)
  have "\<exists>s' nino ly. ref_inode libc_fine demo ''/top/var/log/'' True 0 = Some (Returns (Some 8) s') \<and>
      layers demo 100 = Some ly \<and>
      layers s' = (layers demo)(100 \<mapsto> ly\<lparr>children := (children ly)(snd (basename (remaining_path ''/top/var/log/'')) \<mapsto> 8)\<rparr>) \<and>
      layer_hash s' = layer_hash demo \<and>
      inodes s' = (inodes demo)(4 \<mapsto> (entry ''var'' 100 (Holds 1) None)\<lparr>child := Some 8\<rparr>, 8 \<mapsto> nino) \<and>
      ref nino = 1 \<and> deleted nino = False \<and> mode nino = 0 \<and>
      layer nino = 100 \<and> parent nino = Holds 4 \<and> \<not> lock nino \<and>
      errno s' = 0 \<and> reaper_readers s' = reaper_readers demo"
  proof (rule ref_inode_creates [OF _ _ _ chain])
    show "layer_hash demo (layer_segment ''/top/var/log/'') = Some 101"
      by (simp add: demo_var demo_registry)
    show "\<forall>x\<in>set ([101] @ 100 # []). indexed demo x (remaining_path ''/top/var/log/'') = None"
      by (simp add: demo_var demo_var_indexed)
    show "\<forall>x\<in>set [101]. indexed demo x (dirname (remaining_path ''/top/var/log/'')) = None"
      by (simp add: demo_var demo_var_indexed)
    show "indexed demo 100 (dirname (remaining_path ''/top/var/log/'')) = Some 4"
      by (simp add: demo_var demo_var_indexed)
  qed (simp_all add: demo_var demo_var_inode entry_fields libc_fine_answers PATH_MAX_def)
  then obtain s' ly where run: "ref_inode libc_fine demo ''/top/var/log/'' True 0 = Some (Returns (Some 8) s')"
    and ly: "layers demo 100 = Some ly"
    and lay: "layers s' = (layers demo)(100 \<mapsto> ly\<lparr>children := (children ly)(''/var/log'' \<mapsto> 8)\<rparr>)"
    by (auto simp: demo_var)
  from ly demo_var_indexed(4) have "children ly ''/var/log/'' = None"
    by (simp add: indexed_def ht_get_def)
  with lay have "indexed s' 100 ''/var/log/'' = None" "indexed s' 100 ''/var/log'' = Some 8"
    by (simp_all add: indexed_def ht_get_def)
  with run show ?thesis by (simp add: demo_var demo_var_indexed)
qed

text \<open>
  For a remaining path that does not end in a slash the creation does what is asked.
  Let the path be in no index of the chain of the addressed layer \<open>l\<close>, and let \<open>anc\<close>, a
  proper ancestor of \<open>l\<close>, be the first layer of the chain whose index has the parent
  directory, as the inode \<open>par\<close>. When the allocations succeed (\<^verbatim>\<open>malloc\<close> with a new address
  \<open>a\<close>) and the mutex of \<open>par\<close> is free, \<^verbatim>\<open>ref_inode\<close> with \<^verbatim>\<open>create\<close> true returns \<open>a\<close>: a new
  inode with count 1, whose \<^verbatim>\<open>parent\<close> is \<open>par\<close> and whose \<^verbatim>\<open>layer\<close> is \<open>anc\<close>, the first child of
  \<open>par\<close>, indexed under the full remaining path in the index of \<open>anc\<close>. The index of the
  addressed layer still has no entry for the path, and no other layer and no other inode
  has changed.
\<close>

lemma ref_inode_creates_in_ancestor:
  assumes "path \<noteq> []" and "length (remaining_path path) < PATH_MAX"
    and "last (remaining_path path) \<noteq> CHR ''/''"
    and "layer_hash s (layer_segment path) = Some l"
    and "lineage s (Some l) (pre @ anc # post)" and "pre \<noteq> []"
    and "\<forall>x\<in>set (pre @ anc # post). indexed s x (remaining_path path) = None"
    and "\<forall>x\<in>set pre. indexed s x (dirname (remaining_path path)) = None"
    and "indexed s anc (dirname (remaining_path path)) = Some par"
    and "inodes s par = Some pino" and "\<not> lock pino"
    and "strdup_path e" and "malloc_inode e = Some a" and "inodes s a = None"
    and "strdup_name e" and "strdup_base e"
    and "m AND S_IFREG = 0 \<or> tmpfile_stream e \<noteq> None"
  shows "\<exists>s' nino. ref_inode e s path True m = Some (Returns (Some a) s') \<and>
      indexed s' anc (remaining_path path) = Some a \<and>
      indexed s' l (remaining_path path) = None \<and>
      (\<forall>x. x \<noteq> anc \<longrightarrow> layers s' x = layers s x) \<and>
      layer_hash s' = layer_hash s \<and>
      inodes s' a = Some nino \<and> ref nino = 1 \<and> layer nino = anc \<and> parent nino = Holds par \<and>
      inodes s' par = Some (pino\<lparr>child := Some a\<rparr>) \<and>
      (\<forall>i. i \<noteq> a \<longrightarrow> i \<noteq> par \<longrightarrow> inodes s' i = inodes s i)"
proof -
  let ?rp = "remaining_path path"
  from ref_inode_creates [OF assms(1,2,4,5) assms(7-17)]
  obtain s' nino ly where run: "ref_inode e s path True m = Some (Returns (Some a) s')"
    and ly: "layers s anc = Some ly"
    and lay: "layers s' = (layers s)(anc \<mapsto> ly\<lparr>children := (children ly)(snd (basename ?rp) \<mapsto> a)\<rparr>)"
    and reg: "layer_hash s' = layer_hash s"
    and ino: "inodes s' = (inodes s)(par \<mapsto> pino\<lparr>child := Some a\<rparr>, a \<mapsto> nino)"
    and nino: "ref nino = 1" "layer nino = anc" "parent nino = Holds par"
    by blast
  from assms(3) have key: "snd (basename ?rp) = ?rp" by (simp add: basename_keeps)
  from assms(6) obtain x xs where pre: "pre = x # xs" by (cases pre) auto
  with assms(5) have "x = l" by simp
  with pre have "l \<in> set pre" by simp
  with assms(8,9) have ne: "l \<noteq> anc" by auto
  from assms(7) \<open>l \<in> set pre\<close> have "indexed s l ?rp = None" by simp
  with ne lay have there: "indexed s' l ?rp = None" by (simp add: indexed_def)
  from lay key have here: "indexed s' anc ?rp = Some a" by (simp add: indexed_def ht_get_def)
  from assms(10,14) have "a \<noteq> par" by auto
  with ino have "inodes s' par = Some (pino\<lparr>child := Some a\<rparr>)" "inodes s' a = Some nino"
    "\<forall>i. i \<noteq> a \<longrightarrow> i \<noteq> par \<longrightarrow> inodes s' i = inodes s i"
    by simp_all
  with run here there lay reg nino show ?thesis by auto
qed

text \<open>
  C6, as stated: after \<^verbatim>\<open>init_layers\<close> and \<^verbatim>\<open>create_layer("base", NULL)\<close> on a fresh engine,
  \<^verbatim>\<open>ref_inode("/base/etc/conf", true, regular-file-mode)\<close> returns an inode with count 1.
  It returns null with \<^verbatim>\<open>ENOENT\<close>. \<^verbatim>\<open>create_layer\<close> does not get as far as the registry: it
  ends in \<^verbatim>\<open>deref_inode\<close> (line 282), so the call finds no layer \<^verbatim>\<open>base\<close>. And with \<^verbatim>\<open>base\<close>
  registered as built, the call still fails: the layer has only \<^verbatim>\<open>/\<close>, and no layer has the
  parent directory \<^verbatim>\<open>/etc\<close> (lines 203-206).
\<close>

theorem scenario_create_fails:
  "init_layers fresh = Returns 0 fresh \<and>
   create_layer libc_fine fresh ''base'' Null_ptr =
     Blocked (base_engine\<lparr>layer_hash := Map.empty, inodes := [8 \<mapsto> base_root\<lparr>lock := True\<rparr>]\<rparr>) \<and>
   ref_inode libc_next
       (base_engine\<lparr>layer_hash := Map.empty, inodes := [8 \<mapsto> base_root\<lparr>lock := True\<rparr>]\<rparr>)
       ''/base/etc/conf'' True regular_file_mode =
     Some (Returns None
             (base_engine\<lparr>layer_hash := Map.empty, inodes := [8 \<mapsto> base_root\<lparr>lock := True\<rparr>],
                           errno := ENOENT\<rparr>)) \<and>
   ref_inode libc_next base_engine ''/base/etc/conf'' True regular_file_mode =
     Some (Returns None (base_engine\<lparr>errno := ENOENT\<rparr>))"
proof -
  have "init_layers fresh = Returns 0 fresh"
    by (simp add: init_layers_def fresh_def ht_create_def)
  moreover have "ref_inode libc_next
       (base_engine\<lparr>layer_hash := Map.empty, inodes := [8 \<mapsto> base_root\<lparr>lock := True\<rparr>]\<rparr>)
       ''/base/etc/conf'' True regular_file_mode =
     Some (Returns None
             (base_engine\<lparr>layer_hash := Map.empty, inodes := [8 \<mapsto> base_root\<lparr>lock := True\<rparr>]\<rparr>
                \<lparr>errno := ENOENT\<rparr>))"
    by (rule ref_inode_unregistered) simp_all
  ultimately show ?thesis using create_base_blocks no_etc_in_base by simp
qed

text \<open>
  C6, amended: on an engine whose registry holds the layer \<^verbatim>\<open>base\<close> with only its root \<^verbatim>\<open>/\<close>
  indexed, \<^verbatim>\<open>ref_inode("/base/etc/conf", true, regular-file-mode)\<close> returns null with
  \<^verbatim>\<open>ENOENT\<close>, because no layer has the parent directory \<^verbatim>\<open>/etc\<close>; a creation directly under
  the root, \<^verbatim>\<open>ref_inode("/base/conf", true, regular-file-mode)\<close>, succeeds and returns a new
  inode with count 1, indexed in \<^verbatim>\<open>base\<close> under \<^verbatim>\<open>/conf\<close>.
\<close>

theorem create_needs_parent_directory:
  "ref_inode libc_next base_engine ''/base/etc/conf'' True regular_file_mode =
     Some (Returns None (base_engine\<lparr>errno := ENOENT\<rparr>)) \<and>
   (case ref_inode libc_next base_engine ''/base/conf'' True regular_file_mode of
      Some (Returns r s') \<Rightarrow>
        r = Some 9 \<and> map_option ref (inodes s' 9) = Some 1 \<and> indexed s' 102 ''/conf'' = Some 9
    | _ \<Rightarrow> False)"
proof -
  have chain: "lineage base_engine (Some 102) ([] @ 102 # [])" by (simp add: base_engine_def)
  have reg: "regular_file_mode AND S_IFREG = 0 \<or> tmpfile_stream libc_next \<noteq> None"
    by (simp add: libc_next_answers)
  have "\<exists>s' nino ly. ref_inode libc_next base_engine ''/base/conf'' True regular_file_mode =
        Some (Returns (Some 9) s') \<and>
      layers base_engine 102 = Some ly \<and>
      layers s' = (layers base_engine)(102 \<mapsto> ly\<lparr>children := (children ly)(snd (basename (remaining_path ''/base/conf'')) \<mapsto> 9)\<rparr>) \<and>
      layer_hash s' = layer_hash base_engine \<and>
      inodes s' = (inodes base_engine)(8 \<mapsto> base_root\<lparr>child := Some 9\<rparr>, 9 \<mapsto> nino) \<and>
      ref nino = 1 \<and> deleted nino = False \<and> mode nino = regular_file_mode \<and>
      layer nino = 102 \<and> parent nino = Holds 8 \<and> \<not> lock nino \<and>
      errno s' = 0 \<and>
      reaper_readers s' = reaper_readers base_engine"
  proof (rule ref_inode_creates [OF _ _ _ chain _ _ _ _ _ _ _ _ _ _ reg])
    show "layer_hash base_engine (layer_segment ''/base/conf'') = Some 102"
      by (simp add: base_paths base_engine_facts)
    show "\<forall>x\<in>set ([] @ 102 # []). indexed base_engine x (remaining_path ''/base/conf'') = None"
      by (simp add: base_paths base_engine_facts)
    show "indexed base_engine 102 (dirname (remaining_path ''/base/conf'')) = Some 8"
      by (simp add: base_paths base_engine_facts)
    show "inodes base_engine 8 = Some base_root"
      by (rule base_engine_facts)
  qed (simp_all add: base_paths base_engine_facts base_root_fields libc_next_answers PATH_MAX_def)
  then obtain s' nino ly where
    run: "ref_inode libc_next base_engine ''/base/conf'' True regular_file_mode = Some (Returns (Some 9) s')"
    and lay: "layers s' = (layers base_engine)(102 \<mapsto> ly\<lparr>children := (children ly)(''/conf'' \<mapsto> 9)\<rparr>)"
    and ino: "inodes s' = (inodes base_engine)(8 \<mapsto> base_root\<lparr>child := Some 9\<rparr>, 9 \<mapsto> nino)"
    and nino: "ref nino = 1"
    by (auto simp: base_paths)
  from lay have "indexed s' 102 ''/conf'' = Some 9" by (simp add: indexed_def ht_get_def)
  moreover from ino nino have "map_option ref (inodes s' 9) = Some 1" by simp
  ultimately show ?thesis using run no_etc_in_base by simp
qed


end
